theory Spec2Isabelle
  imports Main
begin

section \<open>The Go library functions the proxy calls\<close>

text \<open>
  The proxy (\<^verbatim>\<open>main.go\<close>) builds its cache keys with \<^verbatim>\<open>path.Clean\<close>, \<^verbatim>\<open>path.Join\<close>,
  \<^verbatim>\<open>path.Ext\<close>, \<^verbatim>\<open>filepath.Join\<close> and \<^verbatim>\<open>url.PathEscape\<close>. They belong to the Go
  standard library (the Dockerfile pins \<^verbatim>\<open>golang:1.13\<close>), not to the repository, and are
  modelled here from their documented behaviour. Strings are byte lists.
\<close>

subsection \<open>Package strings\<close>

text \<open>\<^verbatim>\<open>strings.Join(elems, sep)\<close>.\<close>

fun strings_Join :: "string list \<Rightarrow> string \<Rightarrow> string" where
  "strings_Join [] sep = []"
| "strings_Join [e] sep = e"
| "strings_Join (e # es) sep = e @ sep @ strings_Join es sep"

subsection \<open>Package path\<close>

text \<open>
  The non-empty slash-separated elements of a path, in order. \<^verbatim>\<open>path.Clean\<close> walks its
  argument element by element and skips the empty ones (rule 1 of its documentation:
  multiple slashes are replaced by one); \<open>cur\<close> is the element being read.
\<close>

fun elems_from :: "string \<Rightarrow> string \<Rightarrow> string list" where
  "elems_from cur [] = (if cur = [] then [] else [cur])"
| "elems_from cur (c # cs) =
     (if c = CHR ''/'' then (if cur = [] then elems_from [] cs else cur # elems_from [] cs)
      else elems_from (cur @ [c]) cs)"

definition path_elements :: "string \<Rightarrow> string list" where
  "path_elements p = elems_from [] p"

text \<open>
  One turn of the loop of \<^verbatim>\<open>path.Clean\<close> on the element \<open>e\<close>. The output buffer is kept as
  the stack of elements written so far, the last one first. A \<^verbatim>\<open>.\<close> element is dropped
  (rule 2); a \<^verbatim>\<open>..\<close> element removes the element before it when there is one that is
  not itself a kept \<^verbatim>\<open>..\<close> (rule 3, \<^verbatim>\<open>out.w > dotdot\<close> in the source), is dropped at
  the start of a rooted path (rule 4) and is kept at the start of a relative one; any
  other element is appended.
\<close>

definition Clean_step :: "bool \<Rightarrow> string list \<Rightarrow> string \<Rightarrow> string list" where
  "Clean_step rooted out e =
     (if e = ''.'' then out
      else if e = ''..'' then
        (case out of
           [] \<Rightarrow> if rooted then out else [''..'']
         | t # ts \<Rightarrow> if t = ''..'' then (if rooted then out else ''..'' # out) else ts)
      else e # out)"

text \<open>
  \<^verbatim>\<open>path.Clean\<close>: the empty path becomes \<^verbatim>\<open>.\<close>; a rooted path keeps its leading slash;
  the result has no trailing slash unless it is the root, and an empty result is \<^verbatim>\<open>.\<close>.
\<close>

definition path_Clean :: "string \<Rightarrow> string" where
  "path_Clean p =
     (if p = [] then ''.''
      else
        let rooted = (hd p = CHR ''/'');
            out = rev (foldl (Clean_step rooted) [] (path_elements p));
            s = (if rooted then ''/'' else []) @ strings_Join out ''/''
        in if s = [] then ''.'' else s)"

text \<open>
  \<^verbatim>\<open>path.Join(elem...)\<close> in Go 1.13: from the first non-empty element on, the elements
  are joined with slashes and the result is cleaned; with no non-empty element the result
  is the empty string.
\<close>

definition path_Join :: "string list \<Rightarrow> string" where
  "path_Join elem =
     (case dropWhile (\<lambda>e. e = []) elem of
        [] \<Rightarrow> []
      | e # es \<Rightarrow> path_Clean (strings_Join (e # es) ''/''))"

text \<open>
  \<^verbatim>\<open>filepath.Join\<close>. The image is built for Linux, where \<^verbatim>\<open>filepath.Separator\<close> is the
  slash, \<^verbatim>\<open>filepath.FromSlash\<close> is the identity and \<^verbatim>\<open>filepath.Join\<close> computes what
  \<^verbatim>\<open>path.Join\<close> computes.
\<close>

definition filepath_Join :: "string list \<Rightarrow> string" where
  "filepath_Join elem = path_Join elem"

text \<open>
  \<^verbatim>\<open>path.Ext\<close>: scanning backwards from the end of the path and stopping at a slash, the
  suffix that starts at the first dot met; empty when there is none. The argument of
  \<open>Ext_scan\<close> is the path reversed, \<open>acc\<close> the bytes already passed.
\<close>

fun Ext_scan :: "string \<Rightarrow> string \<Rightarrow> string" where
  "Ext_scan [] acc = []"
| "Ext_scan (c # cs) acc =
     (if c = CHR ''/'' then []
      else if c = CHR ''.'' then c # acc
      else Ext_scan cs (c # acc))"

definition path_Ext :: "string \<Rightarrow> string" where
  "path_Ext p = Ext_scan (rev p) []"

subsection \<open>Package net/url\<close>

text \<open>
  \<^verbatim>\<open>url.PathEscape\<close> escapes a string so that it can stand as one path segment:
  \<^verbatim>\<open>shouldEscape(c, encodePathSegment)\<close> keeps letters, digits, the marks
  \<^verbatim>\<open>-_.~\<close> and the reserved bytes \<^verbatim>\<open>$&+:=@\<close>, and every other byte (the slash, the
  semicolon, the comma and the question mark among them) becomes \<^verbatim>\<open>%XX\<close> in upper-case
  hexadecimal.
\<close>

definition shouldEscape :: "char \<Rightarrow> bool" where
  "shouldEscape c =
     (c \<notin> set ''abcdefghijklmnopqrstuvwxyzABCDEFGHIJKLMNOPQRSTUVWXYZ0123456789''
      \<and> c \<notin> set ''-_.~''
      \<and> c \<notin> set ''$&+:=@'')"

definition upperhex :: "nat \<Rightarrow> char" where
  "upperhex n = ''0123456789ABCDEF'' ! (n mod 16)"

definition escape_byte :: "char \<Rightarrow> string" where
  "escape_byte c =
     (if shouldEscape c
      then [CHR ''%'', upperhex (of_char c div 16), upperhex (of_char c mod 16)]
      else [c])"

definition url_PathEscape :: "string \<Rightarrow> string" where
  "url_PathEscape s = concat (map escape_byte s)"

section \<open>Data of the proxy\<close>

text \<open>
  \<^verbatim>\<open>url.URL\<close>, with the fields the proxy reads or sets. \<open>RawQuery\<close> is held in parsed
  form: the key/value pairs that \<^verbatim>\<open>URL.Query()\<close> decodes, in their order of appearance.
\<close>

record URL =
  Scheme :: string
  Host :: string
  Path :: string
  RawQuery :: "(string \<times> string) list"

text \<open>
  \<^verbatim>\<open>http.Cookie\<close>. \<open>Expires = None\<close> is the zero time; an empty \<open>CookiePath\<close> (the
  field \<^verbatim>\<open>Path\<close> of the Go struct) means that the \<^verbatim>\<open>Set-Cookie\<close> line carries no
  \<^verbatim>\<open>Path\<close> attribute.
\<close>

record Cookie =
  Name :: string
  Value :: string
  CookiePath :: string
  Expires :: "int option"
  HttpOnly :: bool

text \<open>
  \<^verbatim>\<open>http.Request\<close>: its URL and the cookies that \<^verbatim>\<open>Request.Cookies\<close> parses from its
  \<^verbatim>\<open>Cookie\<close> header, as name/value pairs in their order.
\<close>

record Request =
  URL :: URL
  Cookies :: "(string \<times> string) list"

text \<open>
  \<^verbatim>\<open>http.Response\<close>: what the origin answers and what a cache file parses to. The
  status code is whatever number the status line carries: the library reads three digits
  and does not ask for a code that \<^verbatim>\<open>WriteHeader\<close> accepts.
\<close>

record Response =
  StatusCode :: nat
  Header :: "(string \<times> string list) list"
  Body :: string

text \<open>
  A line of the response header: plain text, or the line that \<^verbatim>\<open>http.SetCookie\<close>
  renders from a cookie (the rendering itself is the library's).
\<close>

datatype hvalue = Text string | SetCookieLine Cookie

type_synonym header = "string \<Rightarrow> hvalue list"

text \<open>
  \<^verbatim>\<open>http.ResponseWriter\<close>: the header map, the status line once it has been written and
  the body bytes sent to the client.
\<close>

record ResponseWriter =
  header :: header
  status :: "nat option"
  written :: string

text \<open>Errors, as values. \<^verbatim>\<open>os.IsNotExist\<close> holds of \<open>ErrNotExist\<close> only.\<close>

datatype err =
    ErrNotExist
  | ErrPermission
  | ErrTransport
  | ErrCreate
  | ErrWrite
  | ErrMalformed
  | ErrCopy

text \<open>The calls a request makes that leave the handler, in the order they are made.\<close>

datatype event =
    DefaultVersionCall
  | OriginGet URL
  | FileOpen string
  | FileCreate string
  | LogError err

text \<open>
  The state outside the handler: the files below the cache directory (full name to
  content) and the calls made so far.
\<close>

record World =
  files :: "string \<rightharpoonup> string"
  trace :: "event list"

text \<open>
  \<^verbatim>\<open>type fileServer struct\<close>. \<open>client\<close> is \<^verbatim>\<open>fs.client.Get\<close>: the response of the origin
  for a URL, or \<open>None\<close> when the transport fails (timeout, DNS, refused connection).
\<close>

record fileServer =
  root :: string
  sourceURL :: URL
  client :: "URL \<Rightarrow> Response option"

text \<open>
  What the operating system and the library decide for the handler:
  whether \<^verbatim>\<open>os.Open\<close> and \<^verbatim>\<open>os.Create\<close> fail on a name for a reason other than a
  missing file; the bytes \<^verbatim>\<open>Response.Write\<close> puts into the file and whether it reports
  an error; what \<^verbatim>\<open>http.ReadResponse\<close> parses from the bytes of a file (\<open>None\<close>: not a
  response); the bytes \<^verbatim>\<open>io.Copy\<close> gets to the client and whether it reports an error;
  and the clock.
\<close>

record platform =
  open_fails :: "string \<Rightarrow> bool"
  create_fails :: "string \<Rightarrow> bool"
  Response_Write :: "Response \<Rightarrow> string \<times> bool"
  http_ReadResponse :: "string \<Rightarrow> Response option"
  io_Copy :: "string \<Rightarrow> string \<times> bool"
  time_Now :: int

type_synonym exchange = "World \<times> ResponseWriter \<times> Request"

type_synonym Handler = "exchange \<Rightarrow> exchange"

section \<open>Library calls on the data\<close>

text \<open>\<^verbatim>\<open>url.Values.Get\<close>: the first value of the key, or the empty string.\<close>

definition Values_Get :: "(string \<times> string) list \<Rightarrow> string \<Rightarrow> string" where
  "Values_Get v key =
     (case filter (\<lambda>(k, x). k = key) v of [] \<Rightarrow> [] | (k, x) # rest \<Rightarrow> x)"

text \<open>
  \<^verbatim>\<open>Request.Cookie\<close>: the first cookie of that name (\<open>None\<close> is \<^verbatim>\<open>ErrNoCookie\<close>). A
  cookie read from a request has a name and a value and nothing else.
\<close>

definition Request_Cookie :: "Request \<Rightarrow> string \<Rightarrow> Cookie option" where
  "Request_Cookie req name =
     (case filter (\<lambda>(n, v). n = name) (Cookies req) of
        [] \<Rightarrow> None
      | (n, v) # rest \<Rightarrow>
          Some \<lparr>Name = n, Value = v, CookiePath = [], Expires = None, HttpOnly = False\<rparr>)"

text \<open>\<^verbatim>\<open>Header.Set\<close>, \<^verbatim>\<open>Header.Add\<close>, \<^verbatim>\<open>Header.Get\<close>; every key used is canonical.\<close>

definition Header_Set :: "header \<Rightarrow> string \<Rightarrow> hvalue \<Rightarrow> header" where
  "Header_Set h key v = h(key := [v])"

definition Header_Add :: "header \<Rightarrow> string \<Rightarrow> hvalue \<Rightarrow> header" where
  "Header_Add h key v = h(key := h key @ [v])"

definition Header_Get :: "header \<Rightarrow> string \<Rightarrow> hvalue" where
  "Header_Get h key = (case h key of [] \<Rightarrow> Text [] | v # vs \<Rightarrow> v)"

text \<open>
  \<^verbatim>\<open>http.SetCookie\<close> adds the rendered cookie as a \<^verbatim>\<open>Set-Cookie\<close> line (it adds
  nothing for an invalid cookie name; the proxy's only name is \<^verbatim>\<open>version-override\<close>).
\<close>

definition http_SetCookie :: "ResponseWriter \<Rightarrow> Cookie \<Rightarrow> ResponseWriter" where
  "http_SetCookie rw c = rw\<lparr>header := Header_Add (header rw) ''Set-Cookie'' (SetCookieLine c)\<rparr>"

text \<open>
  \<^verbatim>\<open>ResponseWriter.WriteHeader\<close>: a call after the status has been written is ignored;
  otherwise \<^verbatim>\<open>checkWriteHeaderCode\<close> panics for a code below 100 or above 999 (the
  result \<open>None\<close>), and a code in that range becomes the status.
\<close>

definition WriteHeader :: "ResponseWriter \<Rightarrow> nat \<Rightarrow> ResponseWriter option" where
  "WriteHeader rw code =
     (case status rw of
        Some c \<Rightarrow> Some rw
      | None \<Rightarrow> if code < 100 \<or> 999 < code then None else Some (rw\<lparr>status := Some code\<rparr>))"

text \<open>
  \<^verbatim>\<open>ResponseWriter.Write\<close> writes status 200 first if none was written, then the bytes.
  The code 200 is in range, so that its \<^verbatim>\<open>WriteHeader\<close> does not panic.
\<close>

definition Write :: "ResponseWriter \<Rightarrow> string \<Rightarrow> ResponseWriter" where
  "Write rw bytes =
     (if bytes = [] then rw
      else case WriteHeader rw 200 of
             Some rw' \<Rightarrow> rw'\<lparr>written := written rw' @ bytes\<rparr>
           | None \<Rightarrow> rw)"

definition os_IsNotExist :: "err option \<Rightarrow> bool" where
  "os_IsNotExist e = (e = Some ErrNotExist)"

definition time_Hour :: int where
  "time_Hour = 3600000000000"

section \<open>The proxy\<close>

definition VERSION_COOKIE_NAME :: string where
  "VERSION_COOKIE_NAME = ''version-override''"

text \<open>
  \<^verbatim>\<open>func doError\<close>: log the error, write status 500. The code 500 is in range, so that
  \<^verbatim>\<open>WriteHeader\<close> does not panic here.
\<close>

definition doError :: "exchange \<Rightarrow> err \<Rightarrow> exchange" where
  "doError x e =
     (case x of (w, rw, req) \<Rightarrow>
        (w\<lparr>trace := trace w @ [LogError e]\<rparr>,
         (case WriteHeader rw 500 of Some rw' \<Rightarrow> rw' | None \<Rightarrow> rw), req))"

text \<open>
  \<^verbatim>\<open>http.Dir.Open\<close> opens \<^verbatim>\<open>filepath.Join(dir, FromSlash(path.Clean("/"+name)))\<close>, where an
  empty \<open>dir\<close> stands for the current directory.
\<close>

definition Dir_fullName :: "string \<Rightarrow> string \<Rightarrow> string" where
  "Dir_fullName d name =
     filepath_Join [if d = [] then ''.'' else d, path_Clean (''/'' @ name)]"

text \<open>
  The loops of \<^verbatim>\<open>tryServeFile\<close> that add every value of every key of the parsed
  response to the header of the writer.
\<close>

fun add_vals :: "header \<Rightarrow> string \<Rightarrow> string list \<Rightarrow> header" where
  "add_vals h key [] = h"
| "add_vals h key (val # vals) = add_vals (Header_Add h key (Text val)) key vals"

fun copy_Header :: "(string \<times> string list) list \<Rightarrow> header \<Rightarrow> header" where
  "copy_Header [] h = h"
| "copy_Header ((key, vals) # rest) h = copy_Header rest (add_vals h key vals)"

text \<open>
  How a call ends: it returns its error value (\<open>None\<close> is \<^verbatim>\<open>nil\<close>), or it panics. A panic
  unwinds the handlers, none of which recovers: \<^verbatim>\<open>AppRewrite\<close> and \<^verbatim>\<open>VersionSwitch\<close> do
  nothing after calling the next one, and the line that \<^verbatim>\<open>Logger\<close> prints afterwards is not
  printed. The server then closes the connection, with no response if no status was
  written: the exchange is left as it stands.
\<close>

datatype outcome = Return "err option" | Panic

text \<open>
  \<^verbatim>\<open>func (fs fileServer) tryServeFile\<close>: open the cache file, parse it as a response,
  copy its header, status and body to the writer. It panics where \<^verbatim>\<open>WriteHeader\<close> does:
  on a parsed status code out of range.
\<close>

definition tryServeFile ::
  "platform \<Rightarrow> fileServer \<Rightarrow> string \<Rightarrow> World \<times> ResponseWriter \<Rightarrow> outcome \<times> World \<times> ResponseWriter"
where
  "tryServeFile pf fs name x =
     (case x of (w, rw) \<Rightarrow>
        let fullName = Dir_fullName (root fs) name;
            w1 = w\<lparr>trace := trace w @ [FileOpen fullName]\<rparr>
        in if open_fails pf fullName then (Return (Some ErrPermission), w1, rw)
           else case files w fullName of
                  None \<Rightarrow> (Return (Some ErrNotExist), w1, rw)
                | Some bytes \<Rightarrow>
                   (case http_ReadResponse pf bytes of
                      None \<Rightarrow> (Return (Some ErrMalformed), w1, rw)
                    | Some parsedResponse \<Rightarrow>
                        let rw1 = rw\<lparr>header := copy_Header (Header parsedResponse) (header rw)\<rparr>
                        in case WriteHeader rw1 (StatusCode parsedResponse) of
                             None \<Rightarrow> (Panic, w1, rw1)
                           | Some rw2 \<Rightarrow>
                               let sent = io_Copy pf (Body parsedResponse);
                                   rw3 = Write rw2 (fst sent)
                               in (Return (if snd sent then Some ErrCopy else None), w1, rw3)))"

text \<open>
  The two names \<^verbatim>\<open>doCacheFetch\<close> computes: the URL it requests from the origin and the
  file it creates (the copy of \<^verbatim>\<open>http.Dir.Open\<close> in the source joins \<^verbatim>\<open>fs.root\<close> as it
  is, empty or not).
\<close>

definition urlOut :: "fileServer \<Rightarrow> string \<Rightarrow> URL" where
  "urlOut fs name =
     \<lparr>Scheme = Scheme (sourceURL fs), Host = Host (sourceURL fs),
      Path = path_Join [Path (sourceURL fs), name], RawQuery = []\<rparr>"

definition fullName :: "fileServer \<Rightarrow> string \<Rightarrow> string" where
  "fullName fs name = filepath_Join [root fs, path_Clean (''/'' @ name)]"

text \<open>
  \<^verbatim>\<open>func (fs fileServer) doCacheFetch\<close>: get the URL from the origin; on a transport
  error return it; otherwise, whatever the status code of the response, create the cache
  file (the result of \<^verbatim>\<open>os.MkdirAll\<close> is ignored) and write the response into it. The
  test on \<^verbatim>\<open>filepath.Separator\<close> is false where the separator is the slash.
\<close>

definition doCacheFetch :: "platform \<Rightarrow> fileServer \<Rightarrow> string \<Rightarrow> World \<Rightarrow> err option \<times> World" where
  "doCacheFetch pf fs name w =
     (let w1 = w\<lparr>trace := trace w @ [OriginGet (urlOut fs name)]\<rparr>
      in case client fs (urlOut fs name) of
           None \<Rightarrow> (Some ErrTransport, w1)
         | Some res \<Rightarrow>
             let w2 = w1\<lparr>trace := trace w1 @ [FileCreate (fullName fs name)]\<rparr>
             in if create_fails pf (fullName fs name) then (Some ErrCreate, w2)
                else let out = Response_Write pf res;
                         w3 = w2\<lparr>files := (files w2)(fullName fs name \<mapsto> fst out)\<rparr>
                     in (if snd out then Some ErrWrite else None, w3))"

text \<open>
  \<^verbatim>\<open>func (fs fileServer) ServeHTTP\<close>. A panic of \<^verbatim>\<open>tryServeFile\<close> ends the handler
  where it stands.
\<close>

definition ServeHTTP :: "platform \<Rightarrow> fileServer \<Rightarrow> Handler" where
  "ServeHTTP pf fs x =
     (case x of (w, rw, req) \<Rightarrow>
        let rw1 = rw\<lparr>header := Header_Set (header rw) ''X-Cache'' (Text ''hit'')\<rparr>;
            name = path_Clean (Path (URL req))
        in case tryServeFile pf fs name (w, rw1) of (out1, w1, rw2) \<Rightarrow>
           (case out1 of
              Panic \<Rightarrow> (w1, rw2, req)
            | Return err1 \<Rightarrow>
               if os_IsNotExist err1 then
                 (let rw3 = rw2\<lparr>header := Header_Set (header rw2) ''X-Cache'' (Text ''miss'')\<rparr>
                  in case doCacheFetch pf fs name w1 of (err2, w2) \<Rightarrow>
                     (case err2 of
                        Some e2 \<Rightarrow> doError (w2, rw3, req) e2
                      | None \<Rightarrow>
                         (case tryServeFile pf fs name (w2, rw3) of (out3, w3, rw4) \<Rightarrow>
                            (case out3 of
                               Panic \<Rightarrow> (w3, rw4, req)
                             | Return err3 \<Rightarrow>
                                (case err3 of
                                   Some e3 \<Rightarrow> doError (w3, rw4, req) e3
                                 | None \<Rightarrow> (w3, rw4, req))))))
               else (case err1 of
                       Some e1 \<Rightarrow> doError (w1, rw2, req) e1
                     | None \<Rightarrow> (w1, rw2, req))))"

text \<open>
  The first half of the closure of \<^verbatim>\<open>VersionSwitch\<close> (the \<^verbatim>\<open>if\<close> / \<^verbatim>\<open>else if\<close> /
  \<^verbatim>\<open>else\<close> that assigns \<^verbatim>\<open>version\<close>), in the snapshot where the default version is an
  accessor \<^verbatim>\<open>func() string\<close>; the two earlier snapshots take the default as a string
  and resolve the same version. It returns the version and the world and writer after it.
\<close>

definition VersionSwitch_version ::
  "platform \<Rightarrow> (unit \<Rightarrow> string) \<Rightarrow> exchange \<Rightarrow> string \<times> World \<times> ResponseWriter"
where
  "VersionSwitch_version pf defaultVersion x =
     (case x of (w, rw, req) \<Rightarrow>
        let queryVersion = Values_Get (RawQuery (URL req)) ''version''
        in if queryVersion \<noteq> [] then
             (let version = queryVersion;
                  versionCookie =
                    \<lparr>Name = VERSION_COOKIE_NAME, Value = version, CookiePath = ''/'',
                     Expires = Some (time_Now pf + time_Hour), HttpOnly = False\<rparr>;
                  rw1 = http_SetCookie rw versionCookie;
                  rw2 = rw1\<lparr>header := Header_Set (header rw1) ''Cache-Control'' (Text ''no-store'')\<rparr>
              in (version, w, rw2))
           else
             (case Request_Cookie req VERSION_COOKIE_NAME of
                Some versionCookie \<Rightarrow>
                  (let version = Value versionCookie;
                       versionCookie' = versionCookie\<lparr>Expires := Some (time_Now pf + time_Hour)\<rparr>;
                       rw1 = http_SetCookie rw versionCookie';
                       rw2 = rw1\<lparr>header := Header_Set (header rw1) ''Cache-Control'' (Text ''no-store'')\<rparr>
                   in (version, w, rw2))
              | None \<Rightarrow>
                  (defaultVersion (), w\<lparr>trace := trace w @ [DefaultVersionCall]\<rparr>, rw)))"

text \<open>
  \<^verbatim>\<open>func VersionSwitch\<close>: resolve the version, escape it, prefix the path of the request
  with it and hand the request to the next handler.
\<close>

definition newPath :: "string \<Rightarrow> string \<Rightarrow> string" where
  "newPath version p = path_Clean (''/'' @ path_Join [url_PathEscape version, p])"

definition VersionSwitch :: "platform \<Rightarrow> (unit \<Rightarrow> string) \<Rightarrow> Handler \<Rightarrow> Handler" where
  "VersionSwitch pf defaultVersion next x =
     (case x of (w, rw, req) \<Rightarrow>
        case VersionSwitch_version pf defaultVersion (w, rw, req) of (version, w1, rw1) \<Rightarrow>
          next (w1, rw1, req\<lparr>URL := (URL req)\<lparr>Path := newPath version (Path (URL req))\<rparr>\<rparr>))"

text \<open>\<^verbatim>\<open>func AppRewrite\<close>: a request whose path has no extension asks for \<^verbatim>\<open>/index.html\<close>.\<close>

definition AppRewrite :: "Handler \<Rightarrow> Handler" where
  "AppRewrite next x =
     (case x of (w, rw, req) \<Rightarrow>
        if path_Ext (Path (URL req)) = []
        then next (w, rw, req\<lparr>URL := (URL req)\<lparr>Path := ''/index.html''\<rparr>\<rparr>)
        else next (w, rw, req))"

text \<open>
  \<^verbatim>\<open>func Logger\<close> wraps the writer in a recorder that passes every call on, and prints
  one line after the request: it changes neither the request nor the response.
\<close>

definition Logger :: "Handler \<Rightarrow> Handler" where
  "Logger next x = next x"

text \<open>
  The handler that \<^verbatim>\<open>func main\<close> builds, without the optional development proxy
  (\<^verbatim>\<open>ProxyPaths\<close>, installed only when \<^verbatim>\<open>CRA_PROXY_DEV_PATHS\<close> is set): the logger calls
  \<^verbatim>\<open>AppRewrite\<close>, which calls \<^verbatim>\<open>VersionSwitch\<close>, which calls the file server.
\<close>

definition handler :: "platform \<Rightarrow> fileServer \<Rightarrow> (unit \<Rightarrow> string) \<Rightarrow> Handler" where
  "handler pf fs defaultVersion =
     Logger (AppRewrite (VersionSwitch pf defaultVersion (ServeHTTP pf fs)))"

text \<open>
  One request served: the server calls the handler with a fresh writer. The calls of the
  request are collected from an empty trace.
\<close>

definition newWriter :: ResponseWriter where
  "newWriter = \<lparr>header = (\<lambda>key. []), status = None, written = []\<rparr>"

definition serve ::
  "platform \<Rightarrow> fileServer \<Rightarrow> (unit \<Rightarrow> string) \<Rightarrow> (string \<rightharpoonup> string) \<Rightarrow> Request \<Rightarrow> exchange"
where
  "serve pf fs defaultVersion fsys req =
     handler pf fs defaultVersion (\<lparr>files = fsys, trace = []\<rparr>, newWriter, req)"

text \<open>
  In \<^verbatim>\<open>func main\<close>, when \<^verbatim>\<open>CRA_PROXY_DEFAULT_VERSION\<close> is set, the accessor is the closure
  that returns it.
\<close>

definition defaultVersionFunc :: "string \<Rightarrow> unit \<Rightarrow> string" where
  "defaultVersionFunc defaultVersion u = defaultVersion"

section \<open>Example inputs\<close>

text \<open>
  A deployment as in the Dockerfile, used to instantiate the theorems: the cache lives in
  \<^verbatim>\<open>/data/cache\<close>, no file operation fails, the client takes every byte, and the clock
  shows 1000. A response is stored as its status code (one of 200, 404 and 099 in this
  small rendering), a space and its body, and a file parses back accordingly; a file
  that does not begin like that, such as \<^verbatim>\<open>garbage\<close>, is not a response.
\<close>

definition ex_render :: "Response \<Rightarrow> string" where
  "ex_render r =
     (if StatusCode r = 404 then ''404 '' else if StatusCode r = 99 then ''099 '' else ''200 '')
     @ Body r"

definition ex_parse :: "string \<Rightarrow> Response option" where
  "ex_parse b =
     (if take 4 b = ''404 '' then Some \<lparr>StatusCode = 404, Header = [], Body = drop 4 b\<rparr>
      else if take 4 b = ''200 '' then Some \<lparr>StatusCode = 200, Header = [], Body = drop 4 b\<rparr>
      else if take 4 b = ''099 '' then Some \<lparr>StatusCode = 99, Header = [], Body = drop 4 b\<rparr>
      else None)"

definition ex_platform :: platform where
  "ex_platform =
     \<lparr>open_fails = (\<lambda>n. False), create_fails = (\<lambda>n. False),
      Response_Write = (\<lambda>r. (ex_render r, False)),
      http_ReadResponse = ex_parse,
      io_Copy = (\<lambda>b. (b, False)), time_Now = 1000\<rparr>"

definition ex_source :: URL where
  "ex_source = \<lparr>Scheme = ''http'', Host = ''origin'', Path = [], RawQuery = []\<rparr>"

text \<open>An origin that answers every request with a 404 response, and one that is down.\<close>

definition ex_notfound :: Response where
  "ex_notfound = \<lparr>StatusCode = 404, Header = [], Body = ''not found''\<rparr>"

definition ex_fileServer :: fileServer where
  "ex_fileServer = \<lparr>root = ''/data/cache'', sourceURL = ex_source, client = (\<lambda>u. Some ex_notfound)\<rparr>"

definition ex_fileServer_down :: fileServer where
  "ex_fileServer_down = \<lparr>root = ''/data/cache'', sourceURL = ex_source, client = (\<lambda>u. None)\<rparr>"

text \<open>
  The file server of a process started without \<^verbatim>\<open>CRA_PROXY_CACHE_DIR\<close>: the cache root
  is the empty string.
\<close>

definition ex_fileServer_noroot :: fileServer where
  "ex_fileServer_noroot = \<lparr>root = [], sourceURL = ex_source, client = (\<lambda>u. Some ex_notfound)\<rparr>"

text \<open>An origin whose status line carries the code \<^verbatim>\<open>099\<close>.\<close>

definition ex_fileServer_odd :: fileServer where
  "ex_fileServer_odd =
     \<lparr>root = ''/data/cache'', sourceURL = ex_source,
      client = (\<lambda>u. Some \<lparr>StatusCode = 99, Header = [], Body = ''odd''\<rparr>)\<rparr>"

text \<open>The same platform with a cache directory in which no file can be created.\<close>

definition ex_platform_readonly :: platform where
  "ex_platform_readonly = ex_platform\<lparr>create_fails := (\<lambda>n. True)\<rparr>"

text \<open>The same platform with a full disk: a file is created, but nothing can be written.\<close>

definition ex_platform_full :: platform where
  "ex_platform_full = ex_platform\<lparr>Response_Write := (\<lambda>r. ([], True))\<rparr>"

text \<open>An empty cache, and one whose file for \<^verbatim>\<open>/v1/index.html\<close> is not a response.\<close>

definition ex_empty :: "string \<rightharpoonup> string" where
  "ex_empty = Map.empty"

definition ex_broken :: "string \<rightharpoonup> string" where
  "ex_broken = [''/data/cache/v1/index.html'' \<mapsto> ''garbage'']"

text \<open>A request for a path, with no query and no cookie.\<close>

definition ex_request :: "string \<Rightarrow> Request" where
  "ex_request p = \<lparr>URL = \<lparr>Scheme = [], Host = [], Path = p, RawQuery = []\<rparr>, Cookies = []\<rparr>"

text \<open>The same with the query \<^verbatim>\<open>?version=v\<close>, and with the cookie \<^verbatim>\<open>version-override=v\<close>.\<close>

definition ex_request_query :: "string \<Rightarrow> string \<Rightarrow> Request" where
  "ex_request_query p v =
     \<lparr>URL = \<lparr>Scheme = [], Host = [], Path = p, RawQuery = [(''version'', v)]\<rparr>, Cookies = []\<rparr>"

definition ex_request_cookie :: "string \<Rightarrow> string \<Rightarrow> Request" where
  "ex_request_cookie p v =
     \<lparr>URL = \<lparr>Scheme = [], Host = [], Path = p, RawQuery = []\<rparr>,
      Cookies = [(''version-override'', v)]\<rparr>"

text \<open>A world with the empty cache and no call made yet.\<close>

definition ex_world :: World where
  "ex_world = \<lparr>files = ex_empty, trace = []\<rparr>"

section \<open>Auxiliary notions for the proofs\<close>

text \<open>Kinds of calls, for counting them in a trace.\<close>

fun is_OriginGet :: "event \<Rightarrow> bool" where
  "is_OriginGet (OriginGet u) = True"
| "is_OriginGet ev = False"

fun is_FileOpen :: "event \<Rightarrow> bool" where
  "is_FileOpen (FileOpen n) = True"
| "is_FileOpen ev = False"

fun is_FileCreate :: "event \<Rightarrow> bool" where
  "is_FileCreate (FileCreate n) = True"
| "is_FileCreate ev = False"

text \<open>The elements that a rooted path cleans to.\<close>

definition rooted_out :: "string \<Rightarrow> string list" where
  "rooted_out p = rev (foldl (Clean_step True) [] (path_elements p))"

text \<open>
  The shape of the output stack of \<^verbatim>\<open>path.Clean\<close> on a relative path: the kept
  \<^verbatim>\<open>..\<close> elements lie at the bottom.
\<close>

fun dd_bottom :: "string list \<Rightarrow> bool" where
  "dd_bottom [] = True"
| "dd_bottom (e # es) = (if e = ''..'' then (\<forall>x\<in>set es. x = ''..'') else dd_bottom es)"

text \<open>
  The writer after \<^verbatim>\<open>tryServeFile\<close> has copied the header of the parsed response \<open>r\<close>,
  and after it has sent the response.
\<close>

definition copied :: "ResponseWriter \<Rightarrow> Response \<Rightarrow> ResponseWriter" where
  "copied rw r = rw\<lparr>header := copy_Header (Header r) (header rw)\<rparr>"

definition served :: "platform \<Rightarrow> ResponseWriter \<Rightarrow> Response \<Rightarrow> ResponseWriter" where
  "served pf rw r =
     Write ((copied rw r)\<lparr>status := Some (StatusCode r)\<rparr>) (fst (io_Copy pf (Body r)))"


section \<open>Facts about the library functions\<close>


lemma elems_from_noslash:
  "CHR ''/'' \<notin> set s \<Longrightarrow> elems_from cur (s @ rest) = elems_from (cur @ s) rest"
  by (induction s arbitrary: cur) auto

lemma path_elements_slash: "path_elements (CHR ''/'' # p) = path_elements p"
  by (simp add: path_elements_def)

lemma path_elements_seg_slash:
  assumes "s \<noteq> []" "CHR ''/'' \<notin> set s"
  shows "path_elements (s @ CHR ''/'' # p) = s # path_elements p"
  using assms elems_from_noslash [of s "[]" "CHR ''/'' # p"]
  by (simp add: path_elements_def)

lemma path_elements_seg:
  assumes "s \<noteq> []" "CHR ''/'' \<notin> set s"
  shows "path_elements s = [s]"
  using assms elems_from_noslash [of s "[]" "[]"]
  by (simp add: path_elements_def)

lemma path_elements_Join:
  "\<forall>s\<in>set ss. s \<noteq> [] \<and> CHR ''/'' \<notin> set s \<Longrightarrow> path_elements (strings_Join ss ''/'') = ss"
proof (induction ss "''/''" rule: strings_Join.induct)
  case 1
  then show ?case by (simp add: path_elements_def)
next
  case (2 e)
  then show ?case by (simp add: path_elements_seg)
next
  case (3 e v va)
  then show ?case by (simp add: path_elements_seg_slash)
qed

lemma elems_from_segs:
  "CHR ''/'' \<notin> set cur \<Longrightarrow> \<forall>e\<in>set (elems_from cur p). e \<noteq> [] \<and> CHR ''/'' \<notin> set e"
proof (induction p arbitrary: cur)
  case Nil
  then show ?case by simp
next
  case (Cons c p)
  show ?case
  proof (cases "c = CHR ''/''")
    case True
    then show ?thesis using Cons.IH [of "[]"] Cons.prems by auto
  next
    case False
    then show ?thesis using Cons.IH [of "cur @ [c]"] Cons.prems by auto
  qed
qed

lemma path_elements_segs: "e \<in> set (path_elements p) \<Longrightarrow> e \<noteq> [] \<and> CHR ''/'' \<notin> set e"
  using elems_from_segs [of "[]" p] by (simp add: path_elements_def)

lemma foldl_Clean_step_plain:
  "\<forall>e\<in>set es. e \<noteq> ''.'' \<and> e \<noteq> ''..'' \<Longrightarrow> foldl (Clean_step r) out es = rev es @ out"
  by (induction es arbitrary: out) (auto simp: Clean_step_def)

lemma Clean_step_rooted_inv:
  assumes "\<forall>e\<in>set out. e \<noteq> [] \<and> CHR ''/'' \<notin> set e \<and> e \<noteq> ''.'' \<and> e \<noteq> ''..''"
    and "x \<noteq> []" "CHR ''/'' \<notin> set x"
  shows "\<forall>e\<in>set (Clean_step True out x). e \<noteq> [] \<and> CHR ''/'' \<notin> set e \<and> e \<noteq> ''.'' \<and> e \<noteq> ''..''"
  using assms by (auto simp: Clean_step_def split: list.splits)

lemma foldl_rooted_inv:
  assumes "\<forall>e\<in>set out. e \<noteq> [] \<and> CHR ''/'' \<notin> set e \<and> e \<noteq> ''.'' \<and> e \<noteq> ''..''"
    and "\<forall>x\<in>set es. x \<noteq> [] \<and> CHR ''/'' \<notin> set x"
  shows "\<forall>e\<in>set (foldl (Clean_step True) out es). e \<noteq> [] \<and> CHR ''/'' \<notin> set e \<and> e \<noteq> ''.'' \<and> e \<noteq> ''..''"
  using assms
proof (induction es arbitrary: out)
  case Nil
  then show ?case by simp
next
  case (Cons x es)
  have x: "x \<noteq> []" "CHR ''/'' \<notin> set x"
    using Cons.prems(2) by simp_all
  have rest: "\<forall>x\<in>set es. x \<noteq> [] \<and> CHR ''/'' \<notin> set x"
    using Cons.prems(2) by simp
  have "\<forall>e\<in>set (Clean_step True out x). e \<noteq> [] \<and> CHR ''/'' \<notin> set e \<and> e \<noteq> ''.'' \<and> e \<noteq> ''..''"
    using Cons.prems(1) x by (rule Clean_step_rooted_inv)
  then have "\<forall>e\<in>set (foldl (Clean_step True) (Clean_step True out x) es).
      e \<noteq> [] \<and> CHR ''/'' \<notin> set e \<and> e \<noteq> ''.'' \<and> e \<noteq> ''..''"
    using rest by (rule Cons.IH)
  then show ?case by simp
qed

lemma rooted_out_plain:
  "e \<in> set (rooted_out p) \<Longrightarrow> e \<noteq> [] \<and> CHR ''/'' \<notin> set e \<and> e \<noteq> ''.'' \<and> e \<noteq> ''..''"
  using foldl_rooted_inv [of "[]" "path_elements p"] path_elements_segs [of _ p]
  by (auto simp: rooted_out_def)

lemma path_Clean_rooted: "path_Clean (CHR ''/'' # q) = CHR ''/'' # strings_Join (rooted_out (CHR ''/'' # q)) ''/''"
  by (simp add: path_Clean_def rooted_out_def Let_def)

lemma rooted_out_of_plain:
  assumes "\<forall>e\<in>set out. e \<noteq> [] \<and> CHR ''/'' \<notin> set e \<and> e \<noteq> ''.'' \<and> e \<noteq> ''..''"
  shows "rooted_out (CHR ''/'' # strings_Join out ''/'') = out"
proof -
  have "path_elements (CHR ''/'' # strings_Join out ''/'') = out"
    using assms by (simp add: path_elements_slash path_elements_Join)
  then show ?thesis
    using assms by (simp add: rooted_out_def foldl_Clean_step_plain)
qed

lemma path_Clean_rooted_idem:
  "path_Clean (path_Clean (CHR ''/'' # q)) = path_Clean (CHR ''/'' # q)"
proof -
  let ?out = "rooted_out (CHR ''/'' # q)"
  have "rooted_out (CHR ''/'' # strings_Join ?out ''/'') = ?out"
    by (rule rooted_out_of_plain) (use rooted_out_plain in blast)
  then show ?thesis
    by (simp add: path_Clean_rooted)
qed

lemma rooted_out_slash: "rooted_out (CHR ''/'' # p) = rooted_out p"
  by (simp add: rooted_out_def path_elements_slash)

lemma path_Clean_slash_rooted:
  "path_Clean (CHR ''/'' # path_Clean (CHR ''/'' # q)) = path_Clean (CHR ''/'' # q)"
proof -
  let ?out = "rooted_out (CHR ''/'' # q)"
  have "rooted_out (CHR ''/'' # strings_Join ?out ''/'') = ?out"
    by (rule rooted_out_of_plain) (use rooted_out_plain in blast)
  then show ?thesis
    by (simp add: path_Clean_rooted rooted_out_slash)
qed


lemma Clean_step_set:
  "set (Clean_step r out x) \<subseteq> set out \<union> ({x} - {''.''}) \<union> {''..''}"
  by (auto simp: Clean_step_def split: list.splits)

lemma foldl_Clean_step_set:
  "set (foldl (Clean_step r) out es) \<subseteq> set out \<union> (set es - {''.''}) \<union> {''..''}"
proof (induction es arbitrary: out)
  case Nil
  then show ?case by auto
next
  case (Cons x es)
  have "set (foldl (Clean_step r) (Clean_step r out x) es)
      \<subseteq> set (Clean_step r out x) \<union> (set es - {''.''}) \<union> {''..''}"
    by (rule Cons.IH)
  also have "\<dots> \<subseteq> (set out \<union> ({x} - {''.''}) \<union> {''..''}) \<union> (set es - {''.''}) \<union> {''..''}"
    using Clean_step_set [of r out x] by blast
  finally show ?case by auto
qed

lemma dd_bottom_step: "dd_bottom out \<Longrightarrow> dd_bottom (Clean_step False out e)"
  by (cases out) (auto simp: Clean_step_def)

lemma dd_bottom_filter_step:
  "dd_bottom out \<Longrightarrow>
   filter (\<lambda>x. x \<noteq> ''..'') (Clean_step False out e) = Clean_step True (filter (\<lambda>x. x \<noteq> ''..'') out) e"
proof (cases out)
  case Nil
  then show ?thesis by (simp add: Clean_step_def)
next
  case (Cons t ts)
  assume d: "dd_bottom out"
  show ?thesis
  proof (cases "t = ''..''")
    case True
    then have "filter (\<lambda>x. x \<noteq> ''..'') ts = []"
      using d Cons by (auto simp: filter_empty_conv)
    then show ?thesis using True Cons by (simp add: Clean_step_def)
  next
    case False
    then show ?thesis using Cons by (simp add: Clean_step_def)
  qed
qed

lemma dd_bottom_foldl:
  "dd_bottom out \<Longrightarrow>
   filter (\<lambda>x. x \<noteq> ''..'') (foldl (Clean_step False) out es)
     = foldl (Clean_step True) (filter (\<lambda>x. x \<noteq> ''..'') out) es
   \<and> dd_bottom (foldl (Clean_step False) out es)"
proof (induction es arbitrary: out)
  case Nil
  then show ?case by simp
next
  case (Cons e es)
  have "dd_bottom (Clean_step False out e)"
    using Cons.prems by (rule dd_bottom_step)
  then show ?case
    using Cons.IH [of "Clean_step False out e"] dd_bottom_filter_step [OF Cons.prems, of e]
    by simp
qed

lemma dd_bottom_split:
  "dd_bottom out \<Longrightarrow> \<exists>k. out = filter (\<lambda>x. x \<noteq> ''..'') out @ replicate k ''..''"
proof (induction out)
  case Nil
  then show ?case by simp
next
  case (Cons e es)
  show ?case
  proof (cases "e = ''..''")
    case True
    then have all: "\<forall>x\<in>set es. x = ''..''" using Cons.prems by simp
    then have "filter (\<lambda>x. x \<noteq> ''..'') es = []" by (auto simp: filter_empty_conv)
    moreover have "es = replicate (length es) ''..''"
      using all by (simp add: replicate_length_same)
    ultimately have "e # es = filter (\<lambda>x. x \<noteq> ''..'') (e # es) @ replicate (Suc (length es)) ''..''"
      using True by simp
    then show ?thesis by blast
  next
    case False
    then have "dd_bottom es" using Cons.prems by simp
    then obtain k where "es = filter (\<lambda>x. x \<noteq> ''..'') es @ replicate k ''..''"
      using Cons.IH by blast
    then have "e # es = filter (\<lambda>x. x \<noteq> ''..'') (e # es) @ replicate k ''..''"
      using False by simp
    then show ?thesis by blast
  qed
qed

lemma foldl_rooted_dotdots: "foldl (Clean_step True) [] (replicate k ''..'') = []"
  by (induction k) (auto simp: Clean_step_def)

lemma foldl_rooted_rev:
  assumes "dd_bottom stk" "''.'' \<notin> set stk"
  shows "foldl (Clean_step True) [] (rev stk) = filter (\<lambda>x. x \<noteq> ''..'') stk"
proof -
  obtain k where k: "stk = filter (\<lambda>x. x \<noteq> ''..'') stk @ replicate k ''..''"
    using dd_bottom_split [OF assms(1)] by blast
  let ?pl = "filter (\<lambda>x. x \<noteq> ''..'') stk"
  have "rev stk = replicate k ''..'' @ rev ?pl"
    by (subst k) simp
  then have "foldl (Clean_step True) [] (rev stk) = foldl (Clean_step True) [] (rev ?pl)"
    by (simp add: foldl_rooted_dotdots)
  also have "\<dots> = rev (rev ?pl) @ []"
    by (rule foldl_Clean_step_plain) (use assms(2) in auto)
  finally show ?thesis by simp
qed

lemma strings_Join_Nil_iff:
  "\<forall>e\<in>set es. e \<noteq> [] \<Longrightarrow> strings_Join es sep = [] \<longleftrightarrow> es = []"
  by (induction es sep rule: strings_Join.induct) auto

lemma path_Clean_slash_unrooted:
  assumes "p \<noteq> []" "hd p \<noteq> CHR ''/''"
  shows "path_Clean (CHR ''/'' # path_Clean p) = path_Clean (CHR ''/'' # p)"
proof -
  let ?stk = "foldl (Clean_step False) [] (path_elements p)"
  have sub: "set ?stk \<subseteq> (set (path_elements p) - {''.''}) \<union> {''..''}"
    using foldl_Clean_step_set [of False "[]" "path_elements p"] by simp
  have segs: "\<forall>e\<in>set (rev ?stk). e \<noteq> [] \<and> CHR ''/'' \<notin> set e"
    using sub path_elements_segs [of _ p] by auto
  have nodot: "''.'' \<notin> set ?stk"
    using sub by auto
  have dd: "dd_bottom ?stk"
    using dd_bottom_foldl [of "[]" "path_elements p"] by simp
  have filt: "filter (\<lambda>x. x \<noteq> ''..'') ?stk = foldl (Clean_step True) [] (path_elements p)"
    using dd_bottom_foldl [of "[]" "path_elements p"] by simp
  have clean: "path_Clean p = (if ?stk = [] then ''.'' else strings_Join (rev ?stk) ''/'')"
    using assms segs strings_Join_Nil_iff [of "rev ?stk" "''/''"]
    by (simp add: path_Clean_def Let_def)
  have "rooted_out (CHR ''/'' # path_Clean p) = rev (filter (\<lambda>x. x \<noteq> ''..'') ?stk)"
  proof (cases "?stk = []")
    case True
    then have "path_Clean p = ''.''" using clean by simp
    then show ?thesis
      using True by (simp add: rooted_out_def path_elements_def Clean_step_def)
  next
    case False
    then have "path_elements (path_Clean p) = rev ?stk"
      using clean segs path_elements_Join [of "rev ?stk"] by simp
    then show ?thesis
      using foldl_rooted_rev [OF dd nodot] by (simp add: rooted_out_def path_elements_slash)
  qed
  also have "\<dots> = rooted_out (CHR ''/'' # p)"
    using filt by (simp add: rooted_out_def path_elements_slash)
  finally show ?thesis
    by (simp add: path_Clean_rooted)
qed

lemma path_Clean_slash:
  assumes "p \<noteq> []"
  shows "path_Clean (CHR ''/'' # path_Clean p) = path_Clean (CHR ''/'' # p)"
proof (cases "hd p = CHR ''/''")
  case True
  then obtain q where q: "p = CHR ''/'' # q" using assms by (cases p) auto
  have "path_Clean (CHR ''/'' # p) = path_Clean p"
    by (simp add: q path_Clean_rooted rooted_out_slash)
  then show ?thesis using path_Clean_slash_rooted [of q] q by simp
next
  case False
  then show ?thesis using assms by (rule path_Clean_slash_unrooted [rotated])
qed


lemma upperhex_noslash: "upperhex n \<noteq> CHR ''/''"
proof -
  have "upperhex n \<in> set ''0123456789ABCDEF''"
    unfolding upperhex_def by (rule nth_mem) simp
  then show ?thesis by auto
qed

lemma escape_byte_noslash: "CHR ''/'' \<notin> set (escape_byte c)"
proof (cases "shouldEscape c")
  case True
  then show ?thesis
    using upperhex_noslash [of "of_char c div 16"] upperhex_noslash [of "of_char c mod 16"]
    by (simp add: escape_byte_def)
next
  case False
  then have "c \<noteq> CHR ''/''" by (auto simp: shouldEscape_def)
  then show ?thesis using False by (simp add: escape_byte_def)
qed

lemma url_PathEscape_noslash: "CHR ''/'' \<notin> set (url_PathEscape s)"
  using escape_byte_noslash by (auto simp: url_PathEscape_def)

lemma url_PathEscape_Nil: "url_PathEscape [] = []"
  by (simp add: url_PathEscape_def)

lemma path_Join_empty_first: "path_Join ['''', p] = (if p = [] then [] else path_Clean p)"
  by (simp add: path_Join_def)

lemma path_Join_two: "e \<noteq> [] \<Longrightarrow> path_Join [e, p] = path_Clean (e @ CHR ''/'' # p)"
  by (simp add: path_Join_def)

lemma path_Clean_newPath: "path_Clean (newPath v p) = newPath v p"
  by (simp add: newPath_def path_Clean_rooted_idem)

lemma path_Clean_slash_newPath: "path_Clean (CHR ''/'' # newPath v p) = newPath v p"
  by (simp add: newPath_def path_Clean_slash_rooted)

lemma newPath_empty_version: "newPath [] p = path_Clean (''/'' @ p)"
proof (cases "p = []")
  case True
  then show ?thesis by (simp add: newPath_def url_PathEscape_Nil path_Join_empty_first)
next
  case False
  then show ?thesis
    by (simp add: newPath_def url_PathEscape_Nil path_Join_empty_first path_Clean_slash)
qed

lemma path_Clean_prefixed:
  assumes e: "e \<noteq> []" "CHR ''/'' \<notin> set e" "e \<noteq> ''.''" "e \<noteq> ''..''"
    and p: "path_Clean (CHR ''/'' # q) = CHR ''/'' # q" "q \<noteq> []"
  shows "path_Clean (''/'' @ path_Join [e, CHR ''/'' # q]) = ''/'' @ e @ CHR ''/'' # q"
proof -
  let ?out = "rooted_out (CHR ''/'' # q)"
  have q: "q = strings_Join ?out ''/''"
    using p(1) by (simp add: path_Clean_rooted)
  have plain: "\<forall>x\<in>set ?out. x \<noteq> [] \<and> CHR ''/'' \<notin> set x \<and> x \<noteq> ''.'' \<and> x \<noteq> ''..''"
    using rooted_out_plain by blast
  have ne: "?out \<noteq> []"
    using q p(2) by auto
  have plain': "\<forall>x\<in>set (e # ?out). x \<noteq> [] \<and> CHR ''/'' \<notin> set x \<and> x \<noteq> ''.'' \<and> x \<noteq> ''..''"
    using plain e by simp
  have join: "strings_Join (e # ?out) ''/'' = e @ CHR ''/'' # q"
    using ne q by (cases ?out) auto
  have els: "path_elements (e @ CHR ''/'' # CHR ''/'' # q) = e # ?out"
    using e(1,2) plain q path_elements_Join [of ?out]
    by (simp add: path_elements_seg_slash path_elements_slash)
  have unrooted: "hd (e @ CHR ''/'' # CHR ''/'' # q) \<noteq> CHR ''/''"
    using e(1,2) by (cases e) auto
  have "foldl (Clean_step False) [] (e # ?out) = rev (e # ?out) @ []"
    by (rule foldl_Clean_step_plain) (use plain' in auto)
  then have "path_Clean (e @ CHR ''/'' # CHR ''/'' # q) = strings_Join (e # ?out) ''/''"
    using unrooted els e(1) join by (simp add: path_Clean_def Let_def)
  then have "path_Join [e, CHR ''/'' # q] = strings_Join (e # ?out) ''/''"
    using e(1) by (simp add: path_Join_two)
  moreover have "path_Clean (CHR ''/'' # strings_Join (e # ?out) ''/'') = CHR ''/'' # strings_Join (e # ?out) ''/''"
    using rooted_out_of_plain [OF plain'] by (simp add: path_Clean_rooted)
  ultimately show ?thesis
    using join by simp
qed

lemma path_Clean_index: "path_Clean ''/index.html'' = ''/index.html''"
  by (simp add: path_Clean_def path_elements_def Clean_step_def)


section \<open>Facts about the handlers\<close>


lemma Values_Get_map_of: "Values_Get v key = (case map_of v key of None \<Rightarrow> [] | Some x \<Rightarrow> x)"
  by (induction v) (auto simp: Values_Get_def)

lemma Request_Cookie_map_of:
  "Request_Cookie req name =
     map_option (\<lambda>v. \<lparr>Name = name, Value = v, CookiePath = [], Expires = None, HttpOnly = False\<rparr>)
       (map_of (Cookies req) name)"
proof -
  have "(case filter (\<lambda>(n, v). n = name) cs of
           [] \<Rightarrow> None
         | (n, v) # rest \<Rightarrow> Some \<lparr>Name = n, Value = v, CookiePath = [], Expires = None, HttpOnly = False\<rparr>)
        = map_option (\<lambda>v. \<lparr>Name = name, Value = v, CookiePath = [], Expires = None, HttpOnly = False\<rparr>)
            (map_of cs name)" for cs
    by (induction cs) auto
  then show ?thesis by (simp add: Request_Cookie_def)
qed

lemma VersionSwitch_version_fst:
  "fst (VersionSwitch_version pf dv (w, rw, req)) =
     (if Values_Get (RawQuery (URL req)) ''version'' \<noteq> [] then Values_Get (RawQuery (URL req)) ''version''
      else case Request_Cookie req VERSION_COOKIE_NAME of
             Some c \<Rightarrow> Value c
           | None \<Rightarrow> dv ())"
  by (simp add: VersionSwitch_version_def Let_def split: option.splits)

lemma VersionSwitch_version_state:
  assumes "VersionSwitch_version pf dv (w, rw, req) = (v, w1, rw1)"
  shows "files w1 = files w" "status rw1 = status rw" "written rw1 = written rw"
    "header rw1 ''X-Cache'' = header rw ''X-Cache''"
    "trace w1 = trace w \<or> trace w1 = trace w @ [DefaultVersionCall]"
  using assms
  by (auto simp: VersionSwitch_version_def Let_def http_SetCookie_def Header_Set_def Header_Add_def
      split: option.splits if_splits)

lemma ServeHTTP_req: "snd (snd (ServeHTTP pf fs (w, rw, req))) = req"
  by (simp add: ServeHTTP_def doError_def Let_def split: prod.splits option.splits outcome.splits)


lemma copy_Header_appends: "\<exists>xs. copy_Header hs h key = h key @ xs"
proof (induction hs arbitrary: h)
  case Nil
  then show ?case by simp
next
  case (Cons kv hs)
  obtain k vals where kv: "kv = (k, vals)" by (cases kv)
  have add: "\<exists>xs. add_vals h' k vals key = h' key @ xs" for h'
  proof (induction vals arbitrary: h')
    case Nil
    then show ?case by simp
  next
    case (Cons a vals)
    obtain xs where "add_vals (Header_Add h' k (Text a)) k vals key = Header_Add h' k (Text a) key @ xs"
      using Cons.IH by blast
    then show ?case by (cases "key = k") (simp_all add: Header_Add_def)
  qed
  obtain xs where xs: "add_vals h k vals key = h key @ xs"
    using add by blast
  obtain ys where "copy_Header hs (add_vals h k vals) key = add_vals h k vals key @ ys"
    using Cons.IH by blast
  then show ?case using kv xs by simp
qed

lemma doError_world:
  "doError (w, rw, req) e =
     (w\<lparr>trace := trace w @ [LogError e]\<rparr>,
      (case status rw of None \<Rightarrow> rw\<lparr>status := Some 500\<rparr> | Some c \<Rightarrow> rw), req)"
  by (simp add: doError_def WriteHeader_def split: option.splits)

lemma tryServeFile_denied:
  "open_fails pf (Dir_fullName (root fs) name) \<Longrightarrow>
   tryServeFile pf fs name (w, rw) =
     (Return (Some ErrPermission), w\<lparr>trace := trace w @ [FileOpen (Dir_fullName (root fs) name)]\<rparr>, rw)"
  by (simp add: tryServeFile_def Let_def)

lemma tryServeFile_missing:
  "\<not> open_fails pf (Dir_fullName (root fs) name) \<Longrightarrow> files w (Dir_fullName (root fs) name) = None \<Longrightarrow>
   tryServeFile pf fs name (w, rw) =
     (Return (Some ErrNotExist), w\<lparr>trace := trace w @ [FileOpen (Dir_fullName (root fs) name)]\<rparr>, rw)"
  by (simp add: tryServeFile_def Let_def)

lemma tryServeFile_malformed:
  "\<not> open_fails pf (Dir_fullName (root fs) name) \<Longrightarrow>
   files w (Dir_fullName (root fs) name) = Some bytes \<Longrightarrow> http_ReadResponse pf bytes = None \<Longrightarrow>
   tryServeFile pf fs name (w, rw) =
     (Return (Some ErrMalformed), w\<lparr>trace := trace w @ [FileOpen (Dir_fullName (root fs) name)]\<rparr>, rw)"
  by (simp add: tryServeFile_def Let_def)

lemma tryServeFile_parsed:
  "\<not> open_fails pf (Dir_fullName (root fs) name) \<Longrightarrow>
   files w (Dir_fullName (root fs) name) = Some bytes \<Longrightarrow> http_ReadResponse pf bytes = Some r \<Longrightarrow>
   status rw = None \<Longrightarrow> 100 \<le> StatusCode r \<Longrightarrow> StatusCode r \<le> 999 \<Longrightarrow>
   tryServeFile pf fs name (w, rw) =
     (Return (if snd (io_Copy pf (Body r)) then Some ErrCopy else None),
      w\<lparr>trace := trace w @ [FileOpen (Dir_fullName (root fs) name)]\<rparr>, served pf rw r)"
  by (simp add: tryServeFile_def Let_def served_def copied_def WriteHeader_def)

lemma tryServeFile_panic:
  "\<not> open_fails pf (Dir_fullName (root fs) name) \<Longrightarrow>
   files w (Dir_fullName (root fs) name) = Some bytes \<Longrightarrow> http_ReadResponse pf bytes = Some r \<Longrightarrow>
   status rw = None \<Longrightarrow> StatusCode r < 100 \<or> 999 < StatusCode r \<Longrightarrow>
   tryServeFile pf fs name (w, rw) =
     (Panic, w\<lparr>trace := trace w @ [FileOpen (Dir_fullName (root fs) name)]\<rparr>, copied rw r)"
  by (simp add: tryServeFile_def Let_def copied_def WriteHeader_def)

lemma doCacheFetch_transport:
  "client fs (urlOut fs name) = None \<Longrightarrow>
   doCacheFetch pf fs name w = (Some ErrTransport, w\<lparr>trace := trace w @ [OriginGet (urlOut fs name)]\<rparr>)"
  by (simp add: doCacheFetch_def Let_def)

lemma doCacheFetch_create:
  "client fs (urlOut fs name) = Some res \<Longrightarrow> create_fails pf (fullName fs name) \<Longrightarrow>
   doCacheFetch pf fs name w =
     (Some ErrCreate, w\<lparr>trace := trace w @ [OriginGet (urlOut fs name), FileCreate (fullName fs name)]\<rparr>)"
  by (simp add: doCacheFetch_def Let_def)

lemma doCacheFetch_written:
  "client fs (urlOut fs name) = Some res \<Longrightarrow> \<not> create_fails pf (fullName fs name) \<Longrightarrow>
   doCacheFetch pf fs name w =
     (if snd (Response_Write pf res) then Some ErrWrite else None,
      w\<lparr>trace := trace w @ [OriginGet (urlOut fs name), FileCreate (fullName fs name)],
        files := (files w)(fullName fs name \<mapsto> fst (Response_Write pf res))\<rparr>)"
  by (simp add: doCacheFetch_def Let_def)

lemma status_served: "status (served pf rw r) = Some (StatusCode r)"
  by (simp add: served_def Write_def WriteHeader_def)

lemma written_served: "written (served pf rw r) = written rw @ fst (io_Copy pf (Body r))"
  by (simp add: served_def copied_def Write_def WriteHeader_def)

lemma header_served: "header (served pf rw r) = copy_Header (Header r) (header rw)"
  by (simp add: served_def copied_def Write_def WriteHeader_def)

lemma copied_simps:
  "status (copied rw r) = status rw" "written (copied rw r) = written rw"
  "header (copied rw r) = copy_Header (Header r) (header rw)"
  by (simp_all add: copied_def)

lemma VersionSwitch_version_Path:
  "VersionSwitch_version pf dv (w, rw, req\<lparr>URL := (URL req)\<lparr>Path := p\<rparr>\<rparr>)
     = VersionSwitch_version pf dv (w, rw, req)"
  by (simp add: VersionSwitch_version_def Request_Cookie_def Let_def)

lemma handler_unfold:
  "handler pf fs dv (w, rw, req) =
     (case VersionSwitch_version pf dv (w, rw, req) of (version, w1, rw1) \<Rightarrow>
        ServeHTTP pf fs (w1, rw1,
          req\<lparr>URL := (URL req)\<lparr>Path :=
            newPath version (if path_Ext (Path (URL req)) = [] then ''/index.html'' else Path (URL req))\<rparr>\<rparr>))"
  by (simp add: handler_def Logger_def AppRewrite_def VersionSwitch_def VersionSwitch_version_Path)

text \<open>The request as it reaches the file server.\<close>

lemma serve_reaches:
  assumes "serve pf fs dv fsys req = (w1, rw1, req1)"
  obtains v w0 rw0 where
    "VersionSwitch_version pf dv (\<lparr>files = fsys, trace = []\<rparr>, newWriter, req) = (v, w0, rw0)"
    "ServeHTTP pf fs (w0, rw0, req1) = (w1, rw1, req1)"
    "Path (URL req1) = newPath v (if path_Ext (Path (URL req)) = [] then ''/index.html'' else Path (URL req))"
    "files w0 = fsys" "status rw0 = None" "written rw0 = []" "header rw0 ''X-Cache'' = []"
    "trace w0 = [] \<or> trace w0 = [DefaultVersionCall]"
proof -
  obtain v w0 rw0 where vs:
    "VersionSwitch_version pf dv (\<lparr>files = fsys, trace = []\<rparr>, newWriter, req) = (v, w0, rw0)"
    by (cases "VersionSwitch_version pf dv (\<lparr>files = fsys, trace = []\<rparr>, newWriter, req)") auto
  let ?req0 = "req\<lparr>URL := (URL req)\<lparr>Path :=
            newPath v (if path_Ext (Path (URL req)) = [] then ''/index.html'' else Path (URL req))\<rparr>\<rparr>"
  have run: "ServeHTTP pf fs (w0, rw0, ?req0) = (w1, rw1, req1)"
    using assms vs by (simp add: serve_def handler_unfold)
  then have "req1 = ?req0"
    using ServeHTTP_req [of pf fs w0 rw0 ?req0] by simp
  moreover note st = VersionSwitch_version_state [OF vs]
  ultimately show ?thesis
    using that [of v w0 rw0] vs run st by (simp add: newWriter_def)
qed

lemma ServeHTTP_malformed:
  assumes "\<not> open_fails pf (Dir_fullName (root fs) (path_Clean (Path (URL req))))"
    and "files w (Dir_fullName (root fs) (path_Clean (Path (URL req)))) = Some bytes"
    and "http_ReadResponse pf bytes = None"
    and "status rw = None"
  shows "ServeHTTP pf fs (w, rw, req) =
     (w\<lparr>trace := trace w @ [FileOpen (Dir_fullName (root fs) (path_Clean (Path (URL req)))),
                             LogError ErrMalformed]\<rparr>,
      rw\<lparr>header := Header_Set (header rw) ''X-Cache'' (Text ''hit''), status := Some 500\<rparr>, req)"
  using assms
  by (simp add: ServeHTTP_def Let_def tryServeFile_malformed os_IsNotExist_def doError_world)

lemma ServeHTTP_transport:
  assumes "\<not> open_fails pf (Dir_fullName (root fs) (path_Clean (Path (URL req))))"
    and "files w (Dir_fullName (root fs) (path_Clean (Path (URL req)))) = None"
    and "client fs (urlOut fs (path_Clean (Path (URL req)))) = None"
    and "status rw = None"
  shows "ServeHTTP pf fs (w, rw, req) =
     (w\<lparr>trace := trace w @ [FileOpen (Dir_fullName (root fs) (path_Clean (Path (URL req)))),
                             OriginGet (urlOut fs (path_Clean (Path (URL req)))),
                             LogError ErrTransport]\<rparr>,
      rw\<lparr>header := Header_Set (header rw) ''X-Cache'' (Text ''miss''), status := Some 500\<rparr>, req)"
  using assms
  by (simp add: ServeHTTP_def Let_def tryServeFile_missing doCacheFetch_transport os_IsNotExist_def
      doError_world Header_Set_def)

lemma serve_Path:
  "Path (URL (snd (snd (serve pf fs dv fsys req)))) =
     newPath (fst (VersionSwitch_version pf dv (\<lparr>files = fsys, trace = []\<rparr>, newWriter, req)))
       (if path_Ext (Path (URL req)) = [] then ''/index.html'' else Path (URL req))"
proof -
  obtain w1 rw1 req1 where s: "serve pf fs dv fsys req = (w1, rw1, req1)"
    by (cases "serve pf fs dv fsys req") auto
  from s obtain v w0 rw0 where
    "VersionSwitch_version pf dv (\<lparr>files = fsys, trace = []\<rparr>, newWriter, req) = (v, w0, rw0)"
    "Path (URL req1) = newPath v (if path_Ext (Path (URL req)) = [] then ''/index.html'' else Path (URL req))"
    by (rule serve_reaches)
  then show ?thesis using s by simp
qed

lemma path_Ext_rooted:
  assumes "path_Ext p \<noteq> []" "hd p = CHR ''/''"
  obtains q where "p = CHR ''/'' # q" "q \<noteq> []"
proof -
  have "p \<noteq> []" using assms(1) by (auto simp: path_Ext_def)
  then obtain q where q: "p = CHR ''/'' # q" using assms(2) by (cases p) auto
  have "q \<noteq> []" using assms(1) q by (auto simp: path_Ext_def)
  then show ?thesis using q that by blast
qed


lemma tryServeFile_world:
  assumes "tryServeFile pf fs name (w, rw) = (e, w1, rw1)"
  shows "w1 = w\<lparr>trace := trace w @ [FileOpen (Dir_fullName (root fs) name)]\<rparr>"
  using assms by (auto simp: tryServeFile_def Let_def split: option.splits if_splits)

lemma doCacheFetch_world:
  assumes "doCacheFetch pf fs name w = (e, w1)"
  shows "(e \<noteq> None \<and> w1 = w\<lparr>trace := trace w @ [OriginGet (urlOut fs name)]\<rparr>)
       \<or> (e \<noteq> None \<and> w1 = w\<lparr>trace := trace w @ [OriginGet (urlOut fs name), FileCreate (fullName fs name)]\<rparr>)
       \<or> (\<exists>b. w1 = w\<lparr>trace := trace w @ [OriginGet (urlOut fs name), FileCreate (fullName fs name)],
                       files := (files w)(fullName fs name \<mapsto> b)\<rparr>)"
  using assms by (auto simp: doCacheFetch_def Let_def split: option.splits if_splits)

text \<open>The calls of the file server for one request, in order.\<close>

lemma ServeHTTP_shape:
  assumes run: "ServeHTTP pf fs (w, rw, req) = (w1, rw1, req1)"
  shows "\<exists>es. (es = [] \<or> (\<exists>e. es = [LogError e])) \<and>
     (trace w1 = trace w @ [FileOpen (Dir_fullName (root fs) (path_Clean (Path (URL req))))] @ es
        \<and> files w1 = files w
      \<or> trace w1 = trace w @ [FileOpen (Dir_fullName (root fs) (path_Clean (Path (URL req)))),
                               OriginGet (urlOut fs (path_Clean (Path (URL req))))] @ es
        \<and> files w1 = files w
      \<or> trace w1 = trace w @ [FileOpen (Dir_fullName (root fs) (path_Clean (Path (URL req)))),
                               OriginGet (urlOut fs (path_Clean (Path (URL req)))),
                               FileCreate (fullName fs (path_Clean (Path (URL req))))] @ es
        \<and> (files w1 = files w \<or> (\<exists>b. files w1 = (files w)(fullName fs (path_Clean (Path (URL req))) \<mapsto> b)))
      \<or> trace w1 = trace w @ [FileOpen (Dir_fullName (root fs) (path_Clean (Path (URL req)))),
                               OriginGet (urlOut fs (path_Clean (Path (URL req)))),
                               FileCreate (fullName fs (path_Clean (Path (URL req)))),
                               FileOpen (Dir_fullName (root fs) (path_Clean (Path (URL req))))] @ es
        \<and> (\<exists>b. files w1 = (files w)(fullName fs (path_Clean (Path (URL req))) \<mapsto> b)))"
proof -
  let ?name = "path_Clean (Path (URL req))"
  let ?n = "Dir_fullName (root fs) ?name"
  let ?u = "urlOut fs ?name"
  let ?f = "fullName fs ?name"
  let ?rw = "rw\<lparr>header := Header_Set (header rw) ''X-Cache'' (Text ''hit'')\<rparr>"
  obtain o1 wa rwa where t1: "tryServeFile pf fs ?name (w, ?rw) = (o1, wa, rwa)"
    by (cases "tryServeFile pf fs ?name (w, ?rw)") auto
  have wa: "wa = w\<lparr>trace := trace w @ [FileOpen ?n]\<rparr>"
    using t1 by (rule tryServeFile_world)
  show ?thesis
  proof (cases o1)
    case Panic
    then have "(w1, rw1, req1) = (wa, rwa, req)"
      using run t1 by (simp add: ServeHTTP_def Let_def)
    then have "trace w1 = trace w @ [FileOpen ?n] @ [] \<and> files w1 = files w"
      using wa by simp
    then show ?thesis
      by (intro exI [of _ "[]"]) simp
  next
    case (Return e1)
    show ?thesis
    proof (cases "os_IsNotExist e1")
      case False
      then have "(w1, rw1, req1) = (case e1 of Some e \<Rightarrow> doError (wa, rwa, req) e | None \<Rightarrow> (wa, rwa, req))"
        using run t1 Return by (simp add: ServeHTTP_def Let_def)
      then have "trace w1 = trace w @ [FileOpen ?n] @ (case e1 of Some e \<Rightarrow> [LogError e] | None \<Rightarrow> []) \<and> files w1 = files w"
        using wa by (auto simp: doError_world split: option.splits)
      then show ?thesis
        by (intro exI [of _ "case e1 of Some e \<Rightarrow> [LogError e] | None \<Rightarrow> []"])
          (simp split: option.splits)
    next
      case True
      let ?rwm = "rwa\<lparr>header := Header_Set (header rwa) ''X-Cache'' (Text ''miss'')\<rparr>"
      obtain e2 wb where t2: "doCacheFetch pf fs ?name wa = (e2, wb)"
        by (cases "doCacheFetch pf fs ?name wa") auto
      note wb = doCacheFetch_world [OF t2]
      show ?thesis
      proof (cases e2)
        case (Some e)
        then have "(w1, rw1, req1) = doError (wb, ?rwm, req) e"
          using run t1 t2 True Return by (simp add: ServeHTTP_def Let_def)
        then have w1: "trace w1 = trace wb @ [LogError e]" "files w1 = files wb"
          by (simp_all add: doError_world)
        from wb Some consider
            (get) "wb = wa\<lparr>trace := trace wa @ [OriginGet ?u]\<rparr>"
          | (create) "wb = wa\<lparr>trace := trace wa @ [OriginGet ?u, FileCreate ?f]\<rparr>"
          | (stored) b where "wb = wa\<lparr>trace := trace wa @ [OriginGet ?u, FileCreate ?f],
                         files := (files wa)(?f \<mapsto> b)\<rparr>"
          by auto
        then show ?thesis
        proof cases
          case get
          then have "trace w1 = trace w @ [FileOpen ?n, OriginGet ?u] @ [LogError e] \<and> files w1 = files w"
            using w1 wa by simp
          then show ?thesis by (intro exI [of _ "[LogError e]"]) simp
        next
          case create
          then have "trace w1 = trace w @ [FileOpen ?n, OriginGet ?u, FileCreate ?f] @ [LogError e]
              \<and> files w1 = files w"
            using w1 wa by simp
          then show ?thesis by (intro exI [of _ "[LogError e]"]) simp
        next
          case stored
          then have "trace w1 = trace w @ [FileOpen ?n, OriginGet ?u, FileCreate ?f] @ [LogError e]
              \<and> files w1 = (files w)(?f \<mapsto> b)"
            using w1 wa by simp
          then show ?thesis by (intro exI [of _ "[LogError e]"]) auto
        qed
      next
        case None
        obtain o3 wc rwc where t3: "tryServeFile pf fs ?name (wb, ?rwm) = (o3, wc, rwc)"
          by (cases "tryServeFile pf fs ?name (wb, ?rwm)") auto
        have wc: "wc = wb\<lparr>trace := trace wb @ [FileOpen ?n]\<rparr>"
          using t3 by (rule tryServeFile_world)
        have "(w1, rw1, req1) =
            (case o3 of
               Panic \<Rightarrow> (wc, rwc, req)
             | Return e3 \<Rightarrow> (case e3 of Some e \<Rightarrow> doError (wc, rwc, req) e | None \<Rightarrow> (wc, rwc, req)))"
          using run t1 t2 t3 True None Return by (simp add: ServeHTTP_def Let_def)
        then have "trace w1 = trace wc @ (case o3 of Return (Some e) \<Rightarrow> [LogError e] | _ \<Rightarrow> [])
            \<and> files w1 = files wc"
          by (auto simp: doError_world split: option.splits outcome.splits)
        moreover obtain b where "wb = wa\<lparr>trace := trace wa @ [OriginGet ?u, FileCreate ?f],
                         files := (files wa)(?f \<mapsto> b)\<rparr>"
          using wb None by auto
        ultimately have "trace w1 = trace w @ [FileOpen ?n, OriginGet ?u, FileCreate ?f, FileOpen ?n]
              @ (case o3 of Return (Some e) \<Rightarrow> [LogError e] | _ \<Rightarrow> [])
            \<and> files w1 = (files w)(?f \<mapsto> b)"
          using wa wc by simp
        then show ?thesis
          by (intro exI [of _ "case o3 of Return (Some e) \<Rightarrow> [LogError e] | _ \<Rightarrow> []"])
            (auto split: option.splits outcome.splits)
      qed
    qed
  qed
qed

lemma ServeHTTP_effects:
  assumes "ServeHTTP pf fs (w, rw, req) = (w1, rw1, req1)"
  shows "set (trace w1) \<subseteq> set (trace w) \<union>
           {FileOpen (Dir_fullName (root fs) (path_Clean (Path (URL req)))),
            OriginGet (urlOut fs (path_Clean (Path (URL req)))),
            FileCreate (fullName fs (path_Clean (Path (URL req))))} \<union> range LogError"
    and "n \<noteq> fullName fs (path_Clean (Path (URL req))) \<Longrightarrow> files w1 n = files w n"
  using ServeHTTP_shape [OF assms] by auto

lemma ServeHTTP_counts:
  assumes "ServeHTTP pf fs (w, rw, req) = (w1, rw1, req1)"
  shows "length (filter is_OriginGet (trace w1)) \<le> length (filter is_OriginGet (trace w)) + 1"
    and "length (filter is_FileOpen (trace w1)) \<le> length (filter is_FileOpen (trace w)) + 2"
    and "length (filter is_FileCreate (trace w1)) \<le> length (filter is_FileCreate (trace w)) + 1"
  using ServeHTTP_shape [OF assms] by auto


lemma doError_served:
  "doError (w, served pf rw r, req) e = (w\<lparr>trace := trace w @ [LogError e]\<rparr>, served pf rw r, req)"
  by (simp add: doError_world status_served)

lemma ServeHTTP_denied:
  assumes "open_fails pf (Dir_fullName (root fs) (path_Clean (Path (URL req))))"
    and "status rw = None"
  shows "ServeHTTP pf fs (w, rw, req) =
     (w\<lparr>trace := trace w @ [FileOpen (Dir_fullName (root fs) (path_Clean (Path (URL req)))),
                             LogError ErrPermission]\<rparr>,
      rw\<lparr>header := Header_Set (header rw) ''X-Cache'' (Text ''hit''), status := Some 500\<rparr>, req)"
  using assms
  by (simp add: ServeHTTP_def Let_def tryServeFile_denied os_IsNotExist_def doError_world)

lemma ServeHTTP_parsed:
  assumes "\<not> open_fails pf (Dir_fullName (root fs) (path_Clean (Path (URL req))))"
    and "files w (Dir_fullName (root fs) (path_Clean (Path (URL req)))) = Some bytes"
    and "http_ReadResponse pf bytes = Some r"
    and "status rw = None"
    and "100 \<le> StatusCode r" "StatusCode r \<le> 999"
  shows "ServeHTTP pf fs (w, rw, req) =
     (w\<lparr>trace := trace w @ [FileOpen (Dir_fullName (root fs) (path_Clean (Path (URL req))))]
                @ (if snd (io_Copy pf (Body r)) then [LogError ErrCopy] else [])\<rparr>,
      served pf (rw\<lparr>header := Header_Set (header rw) ''X-Cache'' (Text ''hit'')\<rparr>) r, req)"
  using assms
  by (simp add: ServeHTTP_def Let_def tryServeFile_parsed os_IsNotExist_def doError_served)

lemma ServeHTTP_panic:
  assumes "\<not> open_fails pf (Dir_fullName (root fs) (path_Clean (Path (URL req))))"
    and "files w (Dir_fullName (root fs) (path_Clean (Path (URL req)))) = Some bytes"
    and "http_ReadResponse pf bytes = Some r"
    and "status rw = None"
    and "StatusCode r < 100 \<or> 999 < StatusCode r"
  shows "ServeHTTP pf fs (w, rw, req) =
     (w\<lparr>trace := trace w @ [FileOpen (Dir_fullName (root fs) (path_Clean (Path (URL req))))]\<rparr>,
      copied (rw\<lparr>header := Header_Set (header rw) ''X-Cache'' (Text ''hit'')\<rparr>) r, req)"
  using assms
  by (simp add: ServeHTTP_def Let_def tryServeFile_panic)

lemma ServeHTTP_create:
  assumes "\<not> open_fails pf (Dir_fullName (root fs) (path_Clean (Path (URL req))))"
    and "files w (Dir_fullName (root fs) (path_Clean (Path (URL req)))) = None"
    and "client fs (urlOut fs (path_Clean (Path (URL req)))) = Some res"
    and "create_fails pf (fullName fs (path_Clean (Path (URL req))))"
    and "status rw = None"
  shows "ServeHTTP pf fs (w, rw, req) =
     (w\<lparr>trace := trace w @ [FileOpen (Dir_fullName (root fs) (path_Clean (Path (URL req)))),
                             OriginGet (urlOut fs (path_Clean (Path (URL req)))),
                             FileCreate (fullName fs (path_Clean (Path (URL req)))),
                             LogError ErrCreate]\<rparr>,
      rw\<lparr>header := Header_Set (header rw) ''X-Cache'' (Text ''miss''), status := Some 500\<rparr>, req)"
  using assms
  by (simp add: ServeHTTP_def Let_def tryServeFile_missing doCacheFetch_create os_IsNotExist_def
      doError_world Header_Set_def)

lemma ServeHTTP_write:
  assumes "\<not> open_fails pf (Dir_fullName (root fs) (path_Clean (Path (URL req))))"
    and "files w (Dir_fullName (root fs) (path_Clean (Path (URL req)))) = None"
    and "client fs (urlOut fs (path_Clean (Path (URL req)))) = Some res"
    and "\<not> create_fails pf (fullName fs (path_Clean (Path (URL req))))"
    and "snd (Response_Write pf res)"
    and "status rw = None"
  shows "ServeHTTP pf fs (w, rw, req) =
     (w\<lparr>trace := trace w @ [FileOpen (Dir_fullName (root fs) (path_Clean (Path (URL req)))),
                             OriginGet (urlOut fs (path_Clean (Path (URL req)))),
                             FileCreate (fullName fs (path_Clean (Path (URL req)))),
                             LogError ErrWrite],
         files := (files w)(fullName fs (path_Clean (Path (URL req))) \<mapsto> fst (Response_Write pf res))\<rparr>,
      rw\<lparr>header := Header_Set (header rw) ''X-Cache'' (Text ''miss''), status := Some 500\<rparr>, req)"
  using assms
  by (simp add: ServeHTTP_def Let_def tryServeFile_missing doCacheFetch_written os_IsNotExist_def
      doError_world Header_Set_def)

text \<open>
  The miss that fetches and stores: what the second lookup finds decides the response.
\<close>

lemma ServeHTTP_stored:
  assumes miss: "\<not> open_fails pf (Dir_fullName (root fs) (path_Clean (Path (URL req))))"
      "files w (Dir_fullName (root fs) (path_Clean (Path (URL req)))) = None"
    and fetch: "client fs (urlOut fs (path_Clean (Path (URL req)))) = Some res"
    and store: "\<not> create_fails pf (fullName fs (path_Clean (Path (URL req))))"
      "\<not> snd (Response_Write pf res)"
    and fresh: "status rw = None"
  shows "ServeHTTP pf fs (w, rw, req) =
     (let n = Dir_fullName (root fs) (path_Clean (Path (URL req)));
          u = urlOut fs (path_Clean (Path (URL req)));
          f = fullName fs (path_Clean (Path (URL req)));
          fsys = (files w)(f \<mapsto> fst (Response_Write pf res));
          rwm = rw\<lparr>header := Header_Set (header rw) ''X-Cache'' (Text ''miss'')\<rparr>
      in case fsys n of
           None \<Rightarrow>
             (w\<lparr>trace := trace w @ [FileOpen n, OriginGet u, FileCreate f, FileOpen n, LogError ErrNotExist],
                files := fsys\<rparr>, rwm\<lparr>status := Some 500\<rparr>, req)
         | Some b \<Rightarrow>
            (case http_ReadResponse pf b of
               None \<Rightarrow>
                 (w\<lparr>trace := trace w @ [FileOpen n, OriginGet u, FileCreate f, FileOpen n, LogError ErrMalformed],
                    files := fsys\<rparr>, rwm\<lparr>status := Some 500\<rparr>, req)
             | Some r \<Rightarrow>
                 if StatusCode r < 100 \<or> 999 < StatusCode r
                 then (w\<lparr>trace := trace w @ [FileOpen n, OriginGet u, FileCreate f, FileOpen n],
                         files := fsys\<rparr>, copied rwm r, req)
                 else (w\<lparr>trace := trace w @ [FileOpen n, OriginGet u, FileCreate f, FileOpen n]
                           @ (if snd (io_Copy pf (Body r)) then [LogError ErrCopy] else []),
                         files := fsys\<rparr>, served pf rwm r, req)))"
proof -
  let ?name = "path_Clean (Path (URL req))"
  let ?n = "Dir_fullName (root fs) ?name"
  let ?u = "urlOut fs ?name"
  let ?f = "fullName fs ?name"
  let ?fsys = "(files w)(?f \<mapsto> fst (Response_Write pf res))"
  let ?rwh = "rw\<lparr>header := Header_Set (header rw) ''X-Cache'' (Text ''hit'')\<rparr>"
  let ?rwm = "rw\<lparr>header := Header_Set (header rw) ''X-Cache'' (Text ''miss'')\<rparr>"
  let ?wa = "w\<lparr>trace := trace w @ [FileOpen ?n]\<rparr>"
  let ?wb = "w\<lparr>trace := trace w @ [FileOpen ?n, OriginGet ?u, FileCreate ?f], files := ?fsys\<rparr>"
  have t1: "tryServeFile pf fs ?name (w, ?rwh) = (Return (Some ErrNotExist), ?wa, ?rwh)"
    using miss by (simp add: tryServeFile_missing)
  have t2: "doCacheFetch pf fs ?name ?wa = (None, ?wb)"
    using fetch store by (simp add: doCacheFetch_written)
  have rwm: "Header_Set (Header_Set (header rw) ''X-Cache'' (Text ''hit'')) ''X-Cache'' (Text ''miss'')
      = Header_Set (header rw) ''X-Cache'' (Text ''miss'')"
    by (simp add: Header_Set_def)
  have step: "ServeHTTP pf fs (w, rw, req) =
      (case tryServeFile pf fs ?name (?wb, ?rwm) of (out3, w3, rw4) \<Rightarrow>
         (case out3 of
            Panic \<Rightarrow> (w3, rw4, req)
          | Return err3 \<Rightarrow>
             (case err3 of Some e3 \<Rightarrow> doError (w3, rw4, req) e3 | None \<Rightarrow> (w3, rw4, req))))"
    by (simp add: ServeHTTP_def Let_def t1 t2 rwm os_IsNotExist_def)
  have st: "status ?rwm = None" using fresh by simp
  show ?thesis
  proof (cases "?fsys ?n")
    case None
    then have "tryServeFile pf fs ?name (?wb, ?rwm) =
        (Return (Some ErrNotExist), ?wb\<lparr>trace := trace ?wb @ [FileOpen ?n]\<rparr>, ?rwm)"
      using miss(1) by (intro tryServeFile_missing) simp_all
    then show ?thesis
      using None fresh by (simp add: step Let_def doError_world)
  next
    case (Some b)
    show ?thesis
    proof (cases "http_ReadResponse pf b")
      case None
      then have "tryServeFile pf fs ?name (?wb, ?rwm) =
          (Return (Some ErrMalformed), ?wb\<lparr>trace := trace ?wb @ [FileOpen ?n]\<rparr>, ?rwm)"
        using miss(1) Some by (intro tryServeFile_malformed [where bytes = b]) simp_all
      then show ?thesis
        using None Some fresh by (simp add: step Let_def doError_world)
    next
      case parsed: (Some r)
      show ?thesis
      proof (cases "StatusCode r < 100 \<or> 999 < StatusCode r")
        case True
        then have "tryServeFile pf fs ?name (?wb, ?rwm) =
            (Panic, ?wb\<lparr>trace := trace ?wb @ [FileOpen ?n]\<rparr>, copied ?rwm r)"
          using miss(1) Some parsed st by (intro tryServeFile_panic [where bytes = b]) simp_all
        then show ?thesis
          using parsed Some True by (simp add: step Let_def)
      next
        case False
        then have "tryServeFile pf fs ?name (?wb, ?rwm) =
            (Return (if snd (io_Copy pf (Body r)) then Some ErrCopy else None),
             ?wb\<lparr>trace := trace ?wb @ [FileOpen ?n]\<rparr>, served pf ?rwm r)"
          using miss(1) Some parsed st by (intro tryServeFile_parsed [where bytes = b]) simp_all
        then show ?thesis
          using parsed Some False by (simp add: step Let_def doError_served)
      qed
    qed
  qed
qed

lemma VersionSwitch_version_files:
  "VersionSwitch_version pf dv (w\<lparr>files := g\<rparr>, rw, req) =
     (case VersionSwitch_version pf dv (w, rw, req) of (v, w1, rw1) \<Rightarrow> (v, w1\<lparr>files := g\<rparr>, rw1))"
  by (simp add: VersionSwitch_version_def Let_def split: option.splits)

lemma VersionSwitch_version_query:
  assumes "Values_Get (RawQuery (URL req)) ''version'' \<noteq> []"
  shows "VersionSwitch_version pf dv (w, rw, req) =
     (Values_Get (RawQuery (URL req)) ''version'', w,
      rw\<lparr>header := (header rw)
         (''Set-Cookie'' := header rw ''Set-Cookie'' @
            [SetCookieLine \<lparr>Name = ''version-override'', Value = Values_Get (RawQuery (URL req)) ''version'',
               CookiePath = ''/'', Expires = Some (time_Now pf + time_Hour), HttpOnly = False\<rparr>],
          ''Cache-Control'' := [Text ''no-store''])\<rparr>)"
  using assms
  by (simp add: VersionSwitch_version_def Let_def http_SetCookie_def Header_Add_def Header_Set_def
      VERSION_COOKIE_NAME_def)

lemma VersionSwitch_version_cookie:
  assumes "Values_Get (RawQuery (URL req)) ''version'' = []"
    and "map_of (Cookies req) ''version-override'' = Some v"
  shows "VersionSwitch_version pf dv (w, rw, req) =
     (v, w,
      rw\<lparr>header := (header rw)
         (''Set-Cookie'' := header rw ''Set-Cookie'' @
            [SetCookieLine \<lparr>Name = ''version-override'', Value = v,
               CookiePath = [], Expires = Some (time_Now pf + time_Hour), HttpOnly = False\<rparr>],
          ''Cache-Control'' := [Text ''no-store''])\<rparr>)"
  using assms
  by (simp add: VersionSwitch_version_def Let_def http_SetCookie_def Header_Add_def Header_Set_def
      VERSION_COOKIE_NAME_def Request_Cookie_map_of)

lemma VersionSwitch_version_default:
  assumes "Values_Get (RawQuery (URL req)) ''version'' = []"
    and "map_of (Cookies req) ''version-override'' = None"
  shows "VersionSwitch_version pf dv (w, rw, req) =
     (dv (), w\<lparr>trace := trace w @ [DefaultVersionCall]\<rparr>, rw)"
  using assms
  by (simp add: VersionSwitch_version_def Let_def VERSION_COOKIE_NAME_def Request_Cookie_map_of)

lemma Header_Get_served_hit:
  "Header_Get (header (served pf (rw\<lparr>header := Header_Set (header rw) ''X-Cache'' (Text ''hit'')\<rparr>) r)) ''X-Cache''
     = Text ''hit''"
proof -
  obtain xs where "copy_Header (Header r) (Header_Set (header rw) ''X-Cache'' (Text ''hit'')) ''X-Cache''
      = Header_Set (header rw) ''X-Cache'' (Text ''hit'') ''X-Cache'' @ xs"
    using copy_Header_appends by blast
  then show ?thesis
    by (simp add: header_served Header_Get_def Header_Set_def)
qed

lemma Header_Get_copied_hit:
  "Header_Get (header (copied (rw\<lparr>header := Header_Set (header rw) ''X-Cache'' (Text ''hit'')\<rparr>) r)) ''X-Cache''
     = Text ''hit''"
proof -
  obtain xs where "copy_Header (Header r) (Header_Set (header rw) ''X-Cache'' (Text ''hit'')) ''X-Cache''
      = Header_Set (header rw) ''X-Cache'' (Text ''hit'') ''X-Cache'' @ xs"
    using copy_Header_appends by blast
  then show ?thesis
    by (simp add: copied_simps Header_Get_def Header_Set_def)
qed

text \<open>A request whose cache file is there, or cannot be opened, stays in the cache.\<close>

lemma ServeHTTP_no_miss:
  assumes run: "ServeHTTP pf fs (w, rw, req) = (w1, rw1, req1)"
    and found: "open_fails pf (Dir_fullName (root fs) (path_Clean (Path (URL req))))
      \<or> files w (Dir_fullName (root fs) (path_Clean (Path (URL req)))) \<noteq> None"
    and fresh: "status rw = None"
  shows "files w1 = files w
    \<and> (trace w1 = trace w @ [FileOpen (Dir_fullName (root fs) (path_Clean (Path (URL req))))]
       \<or> (\<exists>e. trace w1 = trace w @ [FileOpen (Dir_fullName (root fs) (path_Clean (Path (URL req)))),
                                       LogError e]))"
proof (cases "open_fails pf (Dir_fullName (root fs) (path_Clean (Path (URL req))))")
  case True
  then show ?thesis
    using run fresh ServeHTTP_denied [of pf fs req rw w] by auto
next
  case False
  then obtain bytes where bytes: "files w (Dir_fullName (root fs) (path_Clean (Path (URL req)))) = Some bytes"
    using found by auto
  show ?thesis
  proof (cases "http_ReadResponse pf bytes")
    case None
    then show ?thesis
      using run fresh False bytes ServeHTTP_malformed [of pf fs req w bytes rw] by auto
  next
    case (Some r)
    show ?thesis
    proof (cases "StatusCode r < 100 \<or> 999 < StatusCode r")
      case True
      then show ?thesis
        using run fresh False bytes Some ServeHTTP_panic [of pf fs req w bytes r rw] by auto
    next
      case valid: False
      then show ?thesis
        using run fresh False bytes Some ServeHTTP_parsed [of pf fs req w bytes r rw] by auto
    qed
  qed
qed

text \<open>
  With a cache root that is not empty and a file that can be created and written, the
  response of the origin is stored whatever its status code, and the same request again
  is a hit that calls the origin no more and sends what the first answer sent.
\<close>

lemma repeat_request_is_hit:
  assumes root: "root fs \<noteq> []"
    and first: "serve pf fs defaultVersion fsys req = (w1, rw1, req1)"
    and miss: "\<not> open_fails pf (Dir_fullName (root fs) (Path (URL req1)))"
      "fsys (Dir_fullName (root fs) (Path (URL req1))) = None"
    and fetch: "client fs (urlOut fs (Path (URL req1))) = Some res"
    and store: "\<not> create_fails pf (fullName fs (Path (URL req1)))" "\<not> snd (Response_Write pf res)"
    and again: "serve pf fs defaultVersion (files w1) req = (w2, rw2, req2)"
  shows "files w1 = fsys(fullName fs (Path (URL req1)) \<mapsto> fst (Response_Write pf res))
       \<and> files w2 = files w1
       \<and> (\<forall>u. OriginGet u \<notin> set (trace w2))
       \<and> Header_Get (header rw2) ''X-Cache'' = Text ''hit''
       \<and> status rw2 = status rw1 \<and> written rw2 = written rw1
       \<and> (http_ReadResponse pf (fst (Response_Write pf res)) = Some res
            \<and> io_Copy pf (Body res) = (Body res, False)
            \<and> 100 \<le> StatusCode res \<and> StatusCode res \<le> 999
          \<longrightarrow> status rw2 = Some (StatusCode res) \<and> written rw2 = Body res)"
proof -
  from first obtain v w0 rw0 where
    vs: "VersionSwitch_version pf defaultVersion (\<lparr>files = fsys, trace = []\<rparr>, newWriter, req) = (v, w0, rw0)"
    and run: "ServeHTTP pf fs (w0, rw0, req1) = (w1, rw1, req1)"
    and path: "Path (URL req1) = newPath v (if path_Ext (Path (URL req)) = [] then ''/index.html'' else Path (URL req))"
    and st: "files w0 = fsys" "status rw0 = None" "written rw0 = []"
    by (rule serve_reaches)
  from again obtain v' w0' rw0' where
    vs': "VersionSwitch_version pf defaultVersion (\<lparr>files = files w1, trace = []\<rparr>, newWriter, req) = (v', w0', rw0')"
    and run': "ServeHTTP pf fs (w0', rw0', req2) = (w2, rw2, req2)"
    and path': "Path (URL req2) = newPath v' (if path_Ext (Path (URL req)) = [] then ''/index.html'' else Path (URL req))"
    and st': "files w0' = files w1" "status rw0' = None" "written rw0' = []"
    and tr': "trace w0' = [] \<or> trace w0' = [DefaultVersionCall]"
    by (rule serve_reaches)
  have "VersionSwitch_version pf defaultVersion (\<lparr>files = fsys, trace = []\<rparr>\<lparr>files := files w1\<rparr>, newWriter, req)
      = (v, w0\<lparr>files := files w1\<rparr>, rw0)"
    by (simp only: VersionSwitch_version_files vs prod.case)
  then have same: "v' = v" "rw0' = rw0"
    using vs' by simp_all
  have name: "path_Clean (Path (URL req1)) = Path (URL req1)"
    by (simp add: path path_Clean_newPath)
  have key: "Path (URL req2) = Path (URL req1)"
    using path path' same by simp
  let ?n = "Dir_fullName (root fs) (Path (URL req1))"
  let ?f = "fullName fs (Path (URL req1))"
  let ?bytes = "fst (Response_Write pf res)"
  let ?rwm = "rw0\<lparr>header := Header_Set (header rw0) ''X-Cache'' (Text ''miss'')\<rparr>"
  let ?rwh = "rw0\<lparr>header := Header_Set (header rw0) ''X-Cache'' (Text ''hit'')\<rparr>"
  have nf: "?n = ?f"
    using root by (simp add: Dir_fullName_def fullName_def)
  note eq1 = ServeHTTP_stored [of pf fs req1 w0 res rw0, unfolded name st(1), OF miss fetch store st(2)]
  have files1: "files w1 = fsys(?f \<mapsto> ?bytes)"
    using run by (auto simp: eq1 Let_def nf split: option.splits if_splits)
  have found: "files w0' ?n = Some ?bytes"
    using st'(1) files1 nf by simp
  show ?thesis
  proof (cases "http_ReadResponse pf ?bytes")
    case None
    have r1: "status rw1 = Some 500 \<and> written rw1 = []"
      using run None st by (auto simp: eq1 Let_def nf)
    have "ServeHTTP pf fs (w0', rw0', req2) =
        (w0'\<lparr>trace := trace w0' @ [FileOpen (Dir_fullName (root fs) (path_Clean (Path (URL req2)))),
                             LogError ErrMalformed]\<rparr>,
         rw0'\<lparr>header := Header_Set (header rw0') ''X-Cache'' (Text ''hit''), status := Some 500\<rparr>, req2)"
      using miss(1) found None st'(2) by (intro ServeHTTP_malformed) (simp_all add: key name)
    then have "files w2 = files w1 \<and> (\<forall>u. OriginGet u \<notin> set (trace w2))
        \<and> Header_Get (header rw2) ''X-Cache'' = Text ''hit''
        \<and> status rw2 = Some 500 \<and> written rw2 = []"
      using run' st' tr' by (auto simp: Header_Get_def Header_Set_def)
    then show ?thesis
      using files1 r1 None by simp
  next
    case (Some r)
    show ?thesis
    proof (cases "StatusCode r < 100 \<or> 999 < StatusCode r")
      case True
      have r1: "rw1 = copied ?rwm r"
        using run Some True by (auto simp: eq1 Let_def nf)
      have "ServeHTTP pf fs (w0', rw0', req2) =
          (w0'\<lparr>trace := trace w0' @ [FileOpen (Dir_fullName (root fs) (path_Clean (Path (URL req2))))]\<rparr>,
           copied (rw0'\<lparr>header := Header_Set (header rw0') ''X-Cache'' (Text ''hit'')\<rparr>) r, req2)"
        using miss(1) found Some st'(2) True by (intro ServeHTTP_panic) (simp_all add: key name)
      then have r2: "files w2 = files w1" "\<forall>u. OriginGet u \<notin> set (trace w2)" "rw2 = copied ?rwh r"
        using run' st' tr' same by auto
      have "status rw2 = status rw1" "written rw2 = written rw1"
        using r1 r2(3) by (simp_all add: copied_simps)
      moreover have "Header_Get (header rw2) ''X-Cache'' = Text ''hit''"
        unfolding r2(3) by (rule Header_Get_copied_hit)
      ultimately show ?thesis
        using files1 r2(1,2) Some True by auto
    next
      case False
      have r1: "rw1 = served pf ?rwm r"
        using run Some False by (auto simp: eq1 Let_def nf)
      have "ServeHTTP pf fs (w0', rw0', req2) =
          (w0'\<lparr>trace := trace w0' @ [FileOpen (Dir_fullName (root fs) (path_Clean (Path (URL req2))))]
                  @ (if snd (io_Copy pf (Body r)) then [LogError ErrCopy] else [])\<rparr>,
           served pf (rw0'\<lparr>header := Header_Set (header rw0') ''X-Cache'' (Text ''hit'')\<rparr>) r, req2)"
        using miss(1) found Some st'(2) False by (intro ServeHTTP_parsed) (simp_all add: key name)
      then have r2: "files w2 = files w1" "\<forall>u. OriginGet u \<notin> set (trace w2)" "rw2 = served pf ?rwh r"
        using run' st' tr' same by auto
      have "status rw2 = Some (StatusCode r)" "status rw1 = Some (StatusCode r)"
        "written rw2 = fst (io_Copy pf (Body r))" "written rw1 = fst (io_Copy pf (Body r))"
        using r1 r2(3) st by (simp_all add: status_served written_served)
      moreover have "Header_Get (header rw2) ''X-Cache'' = Text ''hit''"
        unfolding r2(3) by (rule Header_Get_served_hit)
      ultimately show ?thesis
        using files1 r2(1,2) Some by auto
    qed
  qed
qed

text \<open>
  A response of the origin with a status code below 100 is stored like any other, and is
  never served: \<^verbatim>\<open>WriteHeader\<close> panics on it, in the request that fetched it and in every
  later one, after the header has been copied and before any status is written.
\<close>

lemma status_out_of_range_panics:
  "trace (fst (serve ex_platform ex_fileServer_odd (defaultVersionFunc ''v3'') ex_empty
       (ex_request ''/missing.css'')))
     = [DefaultVersionCall,
        FileOpen ''/data/cache/v3/missing.css'',
        OriginGet \<lparr>Scheme = ''http'', Host = ''origin'', Path = ''/v3/missing.css'', RawQuery = []\<rparr>,
        FileCreate ''/data/cache/v3/missing.css'',
        FileOpen ''/data/cache/v3/missing.css'']
   \<and> files (fst (serve ex_platform ex_fileServer_odd (defaultVersionFunc ''v3'') ex_empty
       (ex_request ''/missing.css''))) ''/data/cache/v3/missing.css'' = Some ''099 odd''
   \<and> status (fst (snd (serve ex_platform ex_fileServer_odd (defaultVersionFunc ''v3'') ex_empty
       (ex_request ''/missing.css'')))) = None
   \<and> written (fst (snd (serve ex_platform ex_fileServer_odd (defaultVersionFunc ''v3'') ex_empty
       (ex_request ''/missing.css'')))) = []
   \<and> trace (fst (serve ex_platform ex_fileServer_odd (defaultVersionFunc ''v3'')
       (files (fst (serve ex_platform ex_fileServer_odd (defaultVersionFunc ''v3'') ex_empty
          (ex_request ''/missing.css''))))
       (ex_request ''/missing.css'')))
     = [DefaultVersionCall, FileOpen ''/data/cache/v3/missing.css'']
   \<and> status (fst (snd (serve ex_platform ex_fileServer_odd (defaultVersionFunc ''v3'')
       (files (fst (serve ex_platform ex_fileServer_odd (defaultVersionFunc ''v3'') ex_empty
          (ex_request ''/missing.css''))))
       (ex_request ''/missing.css'')))) = None"
  by code_simp


section \<open>The claims\<close>

text \<open>
  Claim C1. The version token that \<^verbatim>\<open>VersionSwitch\<close> resolves follows the priority order:
  the value of the query parameter \<^verbatim>\<open>version\<close> when it is present and not empty;
  otherwise the value of the cookie \<^verbatim>\<open>version-override\<close> when the request has one;
  otherwise what the default-version accessor returns. The query parameter and the cookie
  are the first of their name, as \<^verbatim>\<open>Values.Get\<close> and \<^verbatim>\<open>Request.Cookie\<close> read them.
\<close>

theorem C1_version_priority:
  "let version = fst (VersionSwitch_version pf defaultVersion (w, rw, req));
       query = map_of (RawQuery (URL req)) ''version'';
       cookie = map_of (Cookies req) ''version-override''
   in (\<forall>q. query = Some q \<and> q \<noteq> [] \<longrightarrow> version = q)
    \<and> (\<forall>c. (query = None \<or> query = Some []) \<and> cookie = Some c \<longrightarrow> version = c)
    \<and> ((query = None \<or> query = Some []) \<and> cookie = None \<longrightarrow> version = defaultVersion ())"
  by (auto simp: VersionSwitch_version_fst VERSION_COOKIE_NAME_def Values_Get_map_of
      Request_Cookie_map_of Let_def split: option.splits)

theorem C1_witness:
  "map_of [(''version'', ''v2'')] ''version'' = Some ''v2''
   \<and> fst (VersionSwitch_version ex_platform (defaultVersionFunc ''v1'') (ex_world, newWriter,
        \<lparr>URL = \<lparr>Scheme = [], Host = [], Path = ''/app.js'', RawQuery = [(''version'', ''v2'')]\<rparr>,
         Cookies = [(''version-override'', ''v3'')]\<rparr>)) = ''v2''
   \<and> fst (VersionSwitch_version ex_platform (defaultVersionFunc ''v1'') (ex_world, newWriter,
        ex_request_cookie ''/app.js'' ''v3'')) = ''v3''
   \<and> fst (VersionSwitch_version ex_platform (defaultVersionFunc ''v1'') (ex_world, newWriter,
        ex_request ''/app.js'')) = ''v1''"
proof -
  let ?both = "\<lparr>URL = \<lparr>Scheme = [], Host = [], Path = ''/app.js'', RawQuery = [(''version'', ''v2'')]\<rparr>,
         Cookies = [(''version-override'', ''v3'')]\<rparr>"
  have q: "map_of (RawQuery (URL ?both)) ''version'' = Some ''v2''"
    by simp
  have c: "map_of (RawQuery (URL (ex_request_cookie ''/app.js'' ''v3''))) ''version'' = None"
    "map_of (Cookies (ex_request_cookie ''/app.js'' ''v3'')) ''version-override'' = Some ''v3''"
    by (simp_all add: ex_request_cookie_def)
  have d: "map_of (RawQuery (URL (ex_request ''/app.js''))) ''version'' = None"
    "map_of (Cookies (ex_request ''/app.js'')) ''version-override'' = None"
    "defaultVersionFunc ''v1'' () = ''v1''"
    by (simp_all add: ex_request_def defaultVersionFunc_def)
  have "fst (VersionSwitch_version ex_platform (defaultVersionFunc ''v1'') (ex_world, newWriter, ?both)) = ''v2''"
    using C1_version_priority [of ex_platform "defaultVersionFunc ''v1''" ex_world newWriter ?both] q
    by (simp add: Let_def)
  moreover have "fst (VersionSwitch_version ex_platform (defaultVersionFunc ''v1'') (ex_world, newWriter,
        ex_request_cookie ''/app.js'' ''v3'')) = ''v3''"
    using C1_version_priority [of ex_platform "defaultVersionFunc ''v1''" ex_world newWriter
        "ex_request_cookie ''/app.js'' ''v3''"] c
    by (simp add: Let_def)
  moreover have "fst (VersionSwitch_version ex_platform (defaultVersionFunc ''v1'') (ex_world, newWriter,
        ex_request ''/app.js'')) = ''v1''"
    using C1_version_priority [of ex_platform "defaultVersionFunc ''v1''" ex_world newWriter
        "ex_request ''/app.js''"] d
    by (simp add: Let_def)
  ultimately show ?thesis by simp
qed

text \<open>
  Claim C2, as amended. The path handed to the file server is
  \<^verbatim>\<open>clean("/" + join(escape(v), p))\<close>, where \<open>v\<close> is the resolved version and \<open>p\<close> is the
  path that leaves \<^verbatim>\<open>AppRewrite\<close>: \<^verbatim>\<open>/index.html\<close> when the original request path has no
  extension, the original request path otherwise. The file server uses this one string
  for all of its names: the file it looks up, the URL it requests from the origin (the
  string joined to the path of the source URL) and the file it creates; with a cache root
  that is not empty, both files are the string joined to the cache root. The lookup is
  the first call of every request, no other file is changed, and on a miss the URL is
  requested and, when the origin answers, the file is created and the answer written
  into it.
\<close>

theorem C2_canonical_path:
  assumes "serve pf fs defaultVersion fsys req = (w1, rw1, req1)"
  shows "let v = fst (VersionSwitch_version pf defaultVersion (\<lparr>files = fsys, trace = []\<rparr>, newWriter, req));
             p = (if path_Ext (Path (URL req)) = [] then ''/index.html'' else Path (URL req));
             c = path_Clean (''/'' @ path_Join [url_PathEscape v, p]);
             n = Dir_fullName (root fs) c;
             u = urlOut fs c;
             f = fullName fs c;
             calls = removeAll DefaultVersionCall (trace w1)
         in Path (URL req1) = c
          \<and> u = \<lparr>Scheme = Scheme (sourceURL fs), Host = Host (sourceURL fs),
                 Path = path_Join [Path (sourceURL fs), c], RawQuery = []\<rparr>
          \<and> (root fs \<noteq> [] \<longrightarrow> n = filepath_Join [root fs, c] \<and> f = filepath_Join [root fs, c])
          \<and> take 1 calls = [FileOpen n]
          \<and> set calls \<subseteq> {FileOpen n, OriginGet u, FileCreate f} \<union> range LogError
          \<and> (\<forall>m. m \<noteq> f \<longrightarrow> files w1 m = fsys m)
          \<and> (open_fails pf n \<or> fsys n \<noteq> None \<longrightarrow> files w1 = fsys \<and> (\<forall>x. OriginGet x \<notin> set calls))
          \<and> (\<not> open_fails pf n \<and> fsys n = None \<longrightarrow>
                take 2 calls = [FileOpen n, OriginGet u]
              \<and> (\<forall>res. client fs u = Some res \<longrightarrow>
                    take 3 calls = [FileOpen n, OriginGet u, FileCreate f]
                  \<and> (\<not> create_fails pf f \<longrightarrow> files w1 f = Some (fst (Response_Write pf res)))))"
proof -
  from assms obtain v w0 rw0 where
    vs: "VersionSwitch_version pf defaultVersion (\<lparr>files = fsys, trace = []\<rparr>, newWriter, req) = (v, w0, rw0)"
    and run: "ServeHTTP pf fs (w0, rw0, req1) = (w1, rw1, req1)"
    and path: "Path (URL req1) = newPath v (if path_Ext (Path (URL req)) = [] then ''/index.html'' else Path (URL req))"
    and st: "files w0 = fsys" "status rw0 = None"
    and tr: "trace w0 = [] \<or> trace w0 = [DefaultVersionCall]"
    by (rule serve_reaches)
  let ?c = "Path (URL req1)"
  let ?n = "Dir_fullName (root fs) ?c"
  let ?u = "urlOut fs ?c"
  let ?f = "fullName fs ?c"
  let ?calls = "removeAll DefaultVersionCall (trace w1)"
  have c: "path_Clean (''/'' @ path_Join [url_PathEscape
      (fst (VersionSwitch_version pf defaultVersion (\<lparr>files = fsys, trace = []\<rparr>, newWriter, req))),
      if path_Ext (Path (URL req)) = [] then ''/index.html'' else Path (URL req)]) = ?c"
    unfolding path newPath_def vs fst_conv ..
  have name: "path_Clean ?c = ?c"
    by (simp add: path path_Clean_newPath)
  have url: "?u = \<lparr>Scheme = Scheme (sourceURL fs), Host = Host (sourceURL fs),
                 Path = path_Join [Path (sourceURL fs), ?c], RawQuery = []\<rparr>"
    by (simp add: urlOut_def)
  have names: "root fs \<noteq> [] \<longrightarrow> ?n = filepath_Join [root fs, ?c] \<and> ?f = filepath_Join [root fs, ?c]"
    by (simp add: Dir_fullName_def fullName_def path path_Clean_slash_newPath)
  have pre: "removeAll DefaultVersionCall (trace w0) = []"
    using tr by auto
  obtain es where es: "es = [] \<or> (\<exists>e. es = [LogError e])"
    and shape: "trace w1 = trace w0 @ [FileOpen ?n] @ es
      \<or> trace w1 = trace w0 @ [FileOpen ?n, OriginGet ?u] @ es
      \<or> trace w1 = trace w0 @ [FileOpen ?n, OriginGet ?u, FileCreate ?f] @ es
      \<or> trace w1 = trace w0 @ [FileOpen ?n, OriginGet ?u, FileCreate ?f, FileOpen ?n] @ es"
    using ServeHTTP_shape [OF run, unfolded name] by blast
  have first: "take 1 ?calls = [FileOpen ?n]"
    using shape pre by auto
  have only: "set ?calls \<subseteq> {FileOpen ?n, OriginGet ?u, FileCreate ?f} \<union> range LogError"
    using shape es tr by auto
  have others: "\<forall>m. m \<noteq> ?f \<longrightarrow> files w1 m = fsys m"
    using ServeHTTP_effects(2) [OF run, unfolded name] st(1) by simp
  have found: "files w1 = fsys \<and> (\<forall>x. OriginGet x \<notin> set ?calls)"
    if "open_fails pf ?n \<or> fsys ?n \<noteq> None"
    using ServeHTTP_no_miss [OF run, unfolded name st(1), OF that st(2)] st(1) tr by auto
  have fetched: "take 2 ?calls = [FileOpen ?n, OriginGet ?u]"
    if miss: "\<not> open_fails pf ?n" "fsys ?n = None"
  proof (cases "client fs ?u")
    case None
    have "ServeHTTP pf fs (w0, rw0, req1) =
       (w0\<lparr>trace := trace w0 @ [FileOpen ?n, OriginGet ?u, LogError ErrTransport]\<rparr>,
        rw0\<lparr>header := Header_Set (header rw0) ''X-Cache'' (Text ''miss''), status := Some 500\<rparr>, req1)"
      using ServeHTTP_transport [of pf fs req1 w0 rw0] miss None st by (simp add: name)
    then show ?thesis using run pre by auto
  next
    case (Some res)
    have "trace w1 \<noteq> trace w0 @ [FileOpen ?n] @ es"
    proof (cases "create_fails pf ?f")
      case True
      have "ServeHTTP pf fs (w0, rw0, req1) =
         (w0\<lparr>trace := trace w0 @ [FileOpen ?n, OriginGet ?u, FileCreate ?f, LogError ErrCreate]\<rparr>,
          rw0\<lparr>header := Header_Set (header rw0) ''X-Cache'' (Text ''miss''), status := Some 500\<rparr>, req1)"
        using ServeHTTP_create [of pf fs req1 w0 res rw0] miss Some True st by (simp add: name)
      then show ?thesis using run es by auto
    next
      case False
      show ?thesis
      proof (cases "snd (Response_Write pf res)")
        case True
        have "ServeHTTP pf fs (w0, rw0, req1) =
           (w0\<lparr>trace := trace w0 @ [FileOpen ?n, OriginGet ?u, FileCreate ?f, LogError ErrWrite],
               files := (files w0)(?f \<mapsto> fst (Response_Write pf res))\<rparr>,
            rw0\<lparr>header := Header_Set (header rw0) ''X-Cache'' (Text ''miss''), status := Some 500\<rparr>, req1)"
          using ServeHTTP_write [of pf fs req1 w0 res rw0] miss Some False True st by (simp add: name)
        then show ?thesis using run es by auto
      next
        case stored: False
        note eq = ServeHTTP_stored [of pf fs req1 w0 res rw0, unfolded name st(1), OF miss Some False stored st(2)]
        show ?thesis
          using run es by (auto simp: eq Let_def split: option.splits if_splits)
      qed
    qed
    then show ?thesis
      using shape pre by auto
  qed
  have created: "take 3 ?calls = [FileOpen ?n, OriginGet ?u, FileCreate ?f]
      \<and> (\<not> create_fails pf ?f \<longrightarrow> files w1 ?f = Some (fst (Response_Write pf res)))"
    if miss: "\<not> open_fails pf ?n" "fsys ?n = None" and res: "client fs ?u = Some res" for res
  proof (cases "create_fails pf ?f")
    case True
    have "ServeHTTP pf fs (w0, rw0, req1) =
       (w0\<lparr>trace := trace w0 @ [FileOpen ?n, OriginGet ?u, FileCreate ?f, LogError ErrCreate]\<rparr>,
        rw0\<lparr>header := Header_Set (header rw0) ''X-Cache'' (Text ''miss''), status := Some 500\<rparr>, req1)"
      using ServeHTTP_create [of pf fs req1 w0 res rw0] miss res True st by (simp add: name)
    then show ?thesis using run pre True by auto
  next
    case False
    show ?thesis
    proof (cases "snd (Response_Write pf res)")
      case True
      have "ServeHTTP pf fs (w0, rw0, req1) =
         (w0\<lparr>trace := trace w0 @ [FileOpen ?n, OriginGet ?u, FileCreate ?f, LogError ErrWrite],
             files := (files w0)(?f \<mapsto> fst (Response_Write pf res))\<rparr>,
          rw0\<lparr>header := Header_Set (header rw0) ''X-Cache'' (Text ''miss''), status := Some 500\<rparr>, req1)"
        using ServeHTTP_write [of pf fs req1 w0 res rw0] miss res False True st by (simp add: name)
      then show ?thesis using run pre by auto
    next
      case stored: False
      note eq = ServeHTTP_stored [of pf fs req1 w0 res rw0, unfolded name st(1), OF miss res False stored st(2)]
      show ?thesis
        using run pre by (auto simp: eq Let_def split: option.splits if_splits)
    qed
  qed
  show ?thesis
    unfolding Let_def c
    using url names first only others found fetched created by blast
qed

text \<open>
  The request \<^verbatim>\<open>/about\<close> under the default version \<^verbatim>\<open>v1\<close>: the formula of the claim on
  the original request path gives \<^verbatim>\<open>/v1/about\<close>, and the file server is asked for
  \<^verbatim>\<open>/v1/index.html\<close>, which it looks up, fetches and stores.
\<close>

theorem C2_counterexample:
  "fst (VersionSwitch_version ex_platform (defaultVersionFunc ''v1'')
          (\<lparr>files = ex_empty, trace = []\<rparr>, newWriter, ex_request ''/about'')) = ''v1''
   \<and> path_Clean (''/'' @ path_Join [url_PathEscape ''v1'', Path (URL (ex_request ''/about''))]) = ''/v1/about''
   \<and> Path (URL (snd (snd (serve ex_platform ex_fileServer (defaultVersionFunc ''v1'') ex_empty
        (ex_request ''/about'')))))
      = ''/v1/index.html''
   \<and> trace (fst (serve ex_platform ex_fileServer (defaultVersionFunc ''v1'') ex_empty (ex_request ''/about'')))
      = [DefaultVersionCall,
         FileOpen ''/data/cache/v1/index.html'',
         OriginGet \<lparr>Scheme = ''http'', Host = ''origin'', Path = ''/v1/index.html'', RawQuery = []\<rparr>,
         FileCreate ''/data/cache/v1/index.html'',
         FileOpen ''/data/cache/v1/index.html'']
   \<and> files (fst (serve ex_platform ex_fileServer (defaultVersionFunc ''v1'') ex_empty (ex_request ''/about'')))
        ''/data/cache/v1/about'' = None"
  by code_simp

theorem C2_witness:
  "Path (URL (snd (snd (serve ex_platform ex_fileServer (defaultVersionFunc ''v1'') ex_empty
      (ex_request_query ''/app.js'' ''v2'')))))
     = ''/v2/app.js''
   \<and> ''/data/cache/v2/app.js'' = filepath_Join [root ex_fileServer, ''/v2/app.js'']
   \<and> take 3 (removeAll DefaultVersionCall (trace (fst (serve ex_platform ex_fileServer
        (defaultVersionFunc ''v1'') ex_empty (ex_request_query ''/app.js'' ''v2'')))))
     = [FileOpen ''/data/cache/v2/app.js'',
        OriginGet \<lparr>Scheme = ''http'', Host = ''origin'', Path = ''/v2/app.js'', RawQuery = []\<rparr>,
        FileCreate ''/data/cache/v2/app.js'']
   \<and> files (fst (serve ex_platform ex_fileServer (defaultVersionFunc ''v1'') ex_empty
        (ex_request_query ''/app.js'' ''v2''))) ''/data/cache/v2/app.js''
     = Some ''404 not found''
   \<and> files (fst (serve ex_platform ex_fileServer (defaultVersionFunc ''v1'') ex_empty
        (ex_request_query ''/app.js'' ''v2''))) ''/data/cache/v1/app.js''
     = None
   \<and> files (fst (serve ex_platform ex_fileServer (defaultVersionFunc ''v1'') ex_broken
        (ex_request ''/about''))) = ex_broken
   \<and> OriginGet \<lparr>Scheme = ''http'', Host = ''origin'', Path = ''/v1/index.html'', RawQuery = []\<rparr>
        \<notin> set (removeAll DefaultVersionCall (trace (fst (serve ex_platform ex_fileServer
              (defaultVersionFunc ''v1'') ex_broken (ex_request ''/about'')))))"
proof -
  let ?x = "serve ex_platform ex_fileServer (defaultVersionFunc ''v1'') ex_empty
      (ex_request_query ''/app.js'' ''v2'')"
  let ?y = "serve ex_platform ex_fileServer (defaultVersionFunc ''v1'') ex_broken (ex_request ''/about'')"
  have h: "?x = (fst ?x, fst (snd ?x), snd (snd ?x))"
    and k: "?y = (fst ?y, fst (snd ?y), snd (snd ?y))"
    by simp_all
  have c: "path_Clean (''/'' @ path_Join
      [url_PathEscape (fst (VersionSwitch_version ex_platform (defaultVersionFunc ''v1'')
         (\<lparr>files = ex_empty, trace = []\<rparr>, newWriter, ex_request_query ''/app.js'' ''v2''))),
       if path_Ext (Path (URL (ex_request_query ''/app.js'' ''v2''))) = [] then ''/index.html''
       else Path (URL (ex_request_query ''/app.js'' ''v2''))]) = ''/v2/app.js''"
    by code_simp
  have c': "path_Clean (''/'' @ path_Join
      [url_PathEscape (fst (VersionSwitch_version ex_platform (defaultVersionFunc ''v1'')
         (\<lparr>files = ex_broken, trace = []\<rparr>, newWriter, ex_request ''/about''))),
       if path_Ext (Path (URL (ex_request ''/about''))) = [] then ''/index.html''
       else Path (URL (ex_request ''/about''))]) = ''/v1/index.html''"
    by code_simp
  have n: "Dir_fullName (root ex_fileServer) ''/v2/app.js'' = ''/data/cache/v2/app.js''"
    and f: "fullName ex_fileServer ''/v2/app.js'' = ''/data/cache/v2/app.js''"
    and u: "urlOut ex_fileServer ''/v2/app.js''
      = \<lparr>Scheme = ''http'', Host = ''origin'', Path = ''/v2/app.js'', RawQuery = []\<rparr>"
    by code_simp+
  have root: "root ex_fileServer \<noteq> []"
    by code_simp
  have miss: "\<not> open_fails ex_platform ''/data/cache/v2/app.js''"
    "ex_empty ''/data/cache/v2/app.js'' = None"
    by code_simp+
  have fetch: "client ex_fileServer \<lparr>Scheme = ''http'', Host = ''origin'', Path = ''/v2/app.js'', RawQuery = []\<rparr>
      = Some ex_notfound"
    by (simp add: ex_fileServer_def)
  have store: "\<not> create_fails ex_platform ''/data/cache/v2/app.js''"
    "fst (Response_Write ex_platform ex_notfound) = ''404 not found''"
    by code_simp+
  have other: "''/data/cache/v1/app.js'' \<noteq> ''/data/cache/v2/app.js''"
    "ex_empty ''/data/cache/v1/app.js'' = None"
    by code_simp+
  have hit: "ex_broken (Dir_fullName (root ex_fileServer) ''/v1/index.html'') \<noteq> None"
    by code_simp
  note inst = C2_canonical_path [OF h, unfolded Let_def c n f u]
  note inst' = C2_canonical_path [OF k, unfolded Let_def c']
  note rest2 = inst [THEN conjunct2, THEN conjunct2]
  note rest5 = rest2 [THEN conjunct2, THEN conjunct2, THEN conjunct2]
  note on_miss = rest5 [THEN conjunct2, THEN conjunct2, THEN mp, OF conjI [OF miss]]
  note on_answer = on_miss [THEN conjunct2, THEN spec, THEN mp, OF fetch]
  note on_hit = inst' [THEN conjunct2, THEN conjunct2, THEN conjunct2, THEN conjunct2, THEN conjunct2,
      THEN conjunct2, THEN conjunct1, THEN mp, OF disjI2 [OF hit]]
  have 1: "Path (URL (snd (snd ?x))) = ''/v2/app.js''"
    by (rule inst [THEN conjunct1])
  have 2: "''/data/cache/v2/app.js'' = filepath_Join [root ex_fileServer, ''/v2/app.js'']"
    by (rule rest2 [THEN conjunct1, THEN mp, OF root, THEN conjunct1])
  have 3: "take 3 (removeAll DefaultVersionCall (trace (fst ?x)))
     = [FileOpen ''/data/cache/v2/app.js'',
        OriginGet \<lparr>Scheme = ''http'', Host = ''origin'', Path = ''/v2/app.js'', RawQuery = []\<rparr>,
        FileCreate ''/data/cache/v2/app.js'']"
    by (rule on_answer [THEN conjunct1])
  have 4: "files (fst ?x) ''/data/cache/v2/app.js'' = Some ''404 not found''"
    using on_answer [THEN conjunct2, THEN mp, OF store(1)] unfolding store(2) .
  have 5: "files (fst ?x) ''/data/cache/v1/app.js'' = None"
    using rest5 [THEN conjunct1, THEN spec, THEN mp, OF other(1)] unfolding other(2) .
  have 6: "files (fst ?y) = ex_broken"
    by (rule on_hit [THEN conjunct1])
  have 7: "OriginGet \<lparr>Scheme = ''http'', Host = ''origin'', Path = ''/v1/index.html'', RawQuery = []\<rparr>
        \<notin> set (removeAll DefaultVersionCall (trace (fst ?y)))"
    by (rule on_hit [THEN conjunct2, THEN spec])
  show ?thesis
    by (intro conjI) (rule 1 2 3 4 5 6 7)+
qed

text \<open>
  Claim C3, as amended. After both rewrites the file server is asked for
  \<^verbatim>\<open>clean("/" + join(escape(version), "/index.html"))\<close> when the path of the request has no
  extension, whatever that path was, and for \<^verbatim>\<open>clean("/" + join(escape(version), path))\<close>
  when it has one. The first is \<^verbatim>\<open>/{escaped version}/index.html\<close> and the second is the
  path behind the prefix \<^verbatim>\<open>/{escaped version}\<close> when the escaped version is none of the
  empty string, \<^verbatim>\<open>.\<close> and \<^verbatim>\<open>..\<close> (and, for the second, the path is rooted and clean).
\<close>

theorem C3_served_path:
  "let e = url_PathEscape (fst (VersionSwitch_version pf defaultVersion (\<lparr>files = fsys, trace = []\<rparr>, newWriter, req)));
       p = Path (URL req);
       final = Path (URL (snd (snd (serve pf fs defaultVersion fsys req))))
   in (path_Ext p = [] \<longrightarrow>
         final = path_Clean (''/'' @ path_Join [e, ''/index.html''])
         \<and> (e \<noteq> [] \<and> e \<noteq> ''.'' \<and> e \<noteq> ''..'' \<longrightarrow> final = ''/'' @ e @ ''/index.html''))
    \<and> (path_Ext p \<noteq> [] \<longrightarrow>
         final = path_Clean (''/'' @ path_Join [e, p])
         \<and> (e \<noteq> [] \<and> e \<noteq> ''.'' \<and> e \<noteq> ''..'' \<and> hd p = CHR ''/'' \<and> path_Clean p = p \<longrightarrow>
              final = ''/'' @ e @ p))"
proof -
  let ?e = "url_PathEscape (fst (VersionSwitch_version pf defaultVersion (\<lparr>files = fsys, trace = []\<rparr>, newWriter, req)))"
  let ?p = "Path (URL req)"
  let ?final = "Path (URL (snd (snd (serve pf fs defaultVersion fsys req))))"
  have final: "?final = path_Clean (''/'' @ path_Join [?e, if path_Ext ?p = [] then ''/index.html'' else ?p])"
    by (simp add: serve_Path newPath_def)
  have noslash: "CHR ''/'' \<notin> set ?e"
    by (rule url_PathEscape_noslash)
  have index: "path_Clean (''/'' @ path_Join [?e, ''/index.html'']) = ''/'' @ ?e @ ''/index.html''"
    if "?e \<noteq> []" "?e \<noteq> ''.''" "?e \<noteq> ''..''"
    using path_Clean_prefixed [OF that(1) noslash that(2,3), of "''index.html''"] path_Clean_index
    by simp
  have keep: "path_Clean (''/'' @ path_Join [?e, ?p]) = ''/'' @ ?e @ ?p"
    if e: "?e \<noteq> []" "?e \<noteq> ''.''" "?e \<noteq> ''..''"
      and p: "path_Ext ?p \<noteq> []" "hd ?p = CHR ''/''" "path_Clean ?p = ?p"
  proof -
    obtain q where q: "?p = CHR ''/'' # q" "q \<noteq> []"
      using p(1,2) by (rule path_Ext_rooted)
    have "path_Clean (CHR ''/'' # q) = CHR ''/'' # q"
      using p(3) q by simp
    then have "path_Clean (''/'' @ path_Join [?e, CHR ''/'' # q]) = ''/'' @ ?e @ CHR ''/'' # q"
      using path_Clean_prefixed [OF e(1) noslash e(2,3) _ q(2)] by blast
    then show ?thesis using q by simp
  qed
  show ?thesis
    unfolding Let_def using final index keep by auto
qed

text \<open>
  The claim as it was stated fails: a path with an extension can leave the prefix of the
  resolved version (\<^verbatim>\<open>/../v2/app.js\<close> under version \<^verbatim>\<open>v1\<close> is served from
  \<^verbatim>\<open>/v2/app.js\<close>), and under the empty version of an empty cookie the shell is
  \<^verbatim>\<open>/index.html\<close>, with no version element.
\<close>

theorem C3_counterexample:
  "path_Ext ''/../v2/app.js'' \<noteq> []
   \<and> Path (URL (snd (snd (serve ex_platform ex_fileServer (defaultVersionFunc ''v1'') ex_empty
        (ex_request ''/../v2/app.js''))))) = ''/v2/app.js''
   \<and> path_Ext ''/about'' = []
   \<and> fst (VersionSwitch_version ex_platform (defaultVersionFunc ''v1'')
        (ex_world, newWriter, ex_request_cookie ''/about'' [])) = []
   \<and> Path (URL (snd (snd (serve ex_platform ex_fileServer (defaultVersionFunc ''v1'') ex_empty
        (ex_request_cookie ''/about'' []))))) = ''/index.html''"
  by code_simp

theorem C3_witness:
  "path_Ext (Path (URL (ex_request ''/about''))) = []
   \<and> Path (URL (snd (snd (serve ex_platform ex_fileServer (defaultVersionFunc ''v1'') ex_empty
        (ex_request ''/about''))))) = ''/v1/index.html''
   \<and> path_Clean ''/static/app.js'' = ''/static/app.js''
   \<and> Path (URL (snd (snd (serve ex_platform ex_fileServer (defaultVersionFunc ''v1'') ex_empty
        (ex_request ''/static/app.js''))))) = ''/v1/static/app.js''"
proof -
  have e: "url_PathEscape (fst (VersionSwitch_version ex_platform (defaultVersionFunc ''v1'')
        (\<lparr>files = ex_empty, trace = []\<rparr>, newWriter, ex_request p))) = ''v1''" for p
    by (simp add: VersionSwitch_version_fst ex_request_def Values_Get_def Request_Cookie_def
        defaultVersionFunc_def url_PathEscape_def escape_byte_def shouldEscape_def)
  have a: "path_Ext (Path (URL (ex_request ''/about''))) = []"
    by code_simp
  have b: "path_Ext (Path (URL (ex_request ''/static/app.js''))) \<noteq> []"
    "hd (Path (URL (ex_request ''/static/app.js''))) = CHR ''/''"
    "path_Clean (Path (URL (ex_request ''/static/app.js''))) = Path (URL (ex_request ''/static/app.js''))"
    "Path (URL (ex_request ''/static/app.js'')) = ''/static/app.js''"
    by code_simp+
  have "Path (URL (snd (snd (serve ex_platform ex_fileServer (defaultVersionFunc ''v1'') ex_empty
        (ex_request ''/about''))))) = ''/v1/index.html''"
    using C3_served_path [of ex_platform "defaultVersionFunc ''v1''" ex_empty "ex_request ''/about''" ex_fileServer]
      a
    by (auto simp: Let_def e)
  moreover have "Path (URL (snd (snd (serve ex_platform ex_fileServer (defaultVersionFunc ''v1'') ex_empty
        (ex_request ''/static/app.js''))))) = ''/v1/static/app.js''"
    using C3_served_path [of ex_platform "defaultVersionFunc ''v1''" ex_empty "ex_request ''/static/app.js''" ex_fileServer]
      b
    by (auto simp: Let_def e)
  ultimately show ?thesis
    using a b by simp
qed

text \<open>
  Claim C4, as amended. Application-shell routing is applied before version rewriting:
  \<^verbatim>\<open>AppRewrite\<close> is the outer handler, its test for an extension reads the path as the
  client sent it, and a path without extension is replaced by \<^verbatim>\<open>/index.html\<close>, to which
  \<^verbatim>\<open>VersionSwitch\<close> then applies the version prefix.
\<close>

theorem C4_shell_rewrite_first:
  "handler pf fs defaultVersion (w, rw, req) =
     VersionSwitch pf defaultVersion (ServeHTTP pf fs)
       (w, rw, if path_Ext (Path (URL req)) = [] then req\<lparr>URL := (URL req)\<lparr>Path := ''/index.html''\<rparr>\<rparr> else req)
   \<and> Path (URL (snd (snd (serve pf fs defaultVersion fsys req)))) =
     path_Clean (''/'' @ path_Join
       [url_PathEscape (fst (VersionSwitch_version pf defaultVersion (\<lparr>files = fsys, trace = []\<rparr>, newWriter, req))),
        if path_Ext (Path (URL req)) = [] then ''/index.html'' else Path (URL req)])"
  by (simp add: serve_Path newPath_def handler_def Logger_def AppRewrite_def)

text \<open>
  The claim as it was stated fails: for \<^verbatim>\<open>/about\<close> under version \<^verbatim>\<open>v1\<close> the path with
  the version prefix, \<^verbatim>\<open>/v1/about\<close>, has no extension, yet the file server is asked for
  \<^verbatim>\<open>/v1/index.html\<close>, not for \<^verbatim>\<open>/index.html\<close>.
\<close>

theorem C4_counterexample:
  "newPath ''v1'' ''/about'' = ''/v1/about''
   \<and> path_Ext ''/v1/about'' = []
   \<and> Path (URL (snd (snd (serve ex_platform ex_fileServer (defaultVersionFunc ''v1'') ex_empty
        (ex_request ''/about''))))) = ''/v1/index.html''
   \<and> Path (URL (snd (snd (serve ex_platform ex_fileServer (defaultVersionFunc ''v1'') ex_empty
        (ex_request ''/about''))))) \<noteq> ''/index.html''"
  by code_simp

theorem C4_witness:
  "Path (URL (snd (snd (serve ex_platform ex_fileServer (defaultVersionFunc ''v1'') ex_empty
      (ex_request_query ''/'' ''1.0.3''))))) = ''/1.0.3/index.html''"
proof -
  have "path_Clean (''/'' @ path_Join
       [url_PathEscape (fst (VersionSwitch_version ex_platform (defaultVersionFunc ''v1'')
          (\<lparr>files = ex_empty, trace = []\<rparr>, newWriter, ex_request_query ''/'' ''1.0.3''))),
        if path_Ext (Path (URL (ex_request_query ''/'' ''1.0.3''))) = [] then ''/index.html''
        else Path (URL (ex_request_query ''/'' ''1.0.3''))]) = ''/1.0.3/index.html''"
    by code_simp
  then show ?thesis
    using C4_shell_rewrite_first [of ex_platform ex_fileServer "defaultVersionFunc ''v1''" ex_world newWriter
        "ex_request_query ''/'' ''1.0.3''" ex_empty]
    by simp
qed

text \<open>
  Claim C5, at an input where the code departs from it. The cache root is empty
  (\<^verbatim>\<open>CRA_PROXY_CACHE_DIR\<close> is not set), the cache is empty, the default version is \<^verbatim>\<open>v3\<close>
  and the origin answers 404. The request \<^verbatim>\<open>/missing.css\<close> fetches the response and
  writes it to \<^verbatim>\<open>/v3/missing.css\<close>, because \<^verbatim>\<open>doCacheFetch\<close> joins the name to the root as
  it is, while both lookups open \<^verbatim>\<open>v3/missing.css\<close>, because \<^verbatim>\<open>http.Dir.Open\<close> reads an
  empty root as the current directory: the second lookup finds nothing and the response
  is status 500. The same request again, on the files that the first one left, is a miss
  again: it calls the origin a second time and ends in status 500, where the claim has a
  404 served from the cache with \<^verbatim>\<open>X-Cache: hit\<close>. (With a cache root that is not empty
  and a status code from 100 to 999, lemma \<open>repeat_request_is_hit\<close> above is what the claim
  says; lemma \<open>status_out_of_range_panics\<close> is what happens for a status code below 100.)
\<close>

theorem C5_empty_root_refetches:
  "trace (fst (serve ex_platform ex_fileServer_noroot (defaultVersionFunc ''v3'') ex_empty
       (ex_request ''/missing.css'')))
     = [DefaultVersionCall,
        FileOpen ''v3/missing.css'',
        OriginGet \<lparr>Scheme = ''http'', Host = ''origin'', Path = ''/v3/missing.css'', RawQuery = []\<rparr>,
        FileCreate ''/v3/missing.css'',
        FileOpen ''v3/missing.css'',
        LogError ErrNotExist]
   \<and> status (fst (snd (serve ex_platform ex_fileServer_noroot (defaultVersionFunc ''v3'') ex_empty
       (ex_request ''/missing.css'')))) = Some 500
   \<and> files (fst (serve ex_platform ex_fileServer_noroot (defaultVersionFunc ''v3'') ex_empty
       (ex_request ''/missing.css''))) ''/v3/missing.css'' = Some ''404 not found''
   \<and> files (fst (serve ex_platform ex_fileServer_noroot (defaultVersionFunc ''v3'') ex_empty
       (ex_request ''/missing.css''))) ''v3/missing.css'' = None
   \<and> trace (fst (serve ex_platform ex_fileServer_noroot (defaultVersionFunc ''v3'')
       (files (fst (serve ex_platform ex_fileServer_noroot (defaultVersionFunc ''v3'') ex_empty
          (ex_request ''/missing.css''))))
       (ex_request ''/missing.css'')))
     = [DefaultVersionCall,
        FileOpen ''v3/missing.css'',
        OriginGet \<lparr>Scheme = ''http'', Host = ''origin'', Path = ''/v3/missing.css'', RawQuery = []\<rparr>,
        FileCreate ''/v3/missing.css'',
        FileOpen ''v3/missing.css'',
        LogError ErrNotExist]
   \<and> header (fst (snd (serve ex_platform ex_fileServer_noroot (defaultVersionFunc ''v3'')
       (files (fst (serve ex_platform ex_fileServer_noroot (defaultVersionFunc ''v3'') ex_empty
          (ex_request ''/missing.css''))))
       (ex_request ''/missing.css'')))) ''X-Cache'' = [Text ''miss'']
   \<and> status (fst (snd (serve ex_platform ex_fileServer_noroot (defaultVersionFunc ''v3'')
       (files (fst (serve ex_platform ex_fileServer_noroot (defaultVersionFunc ''v3'') ex_empty
          (ex_request ''/missing.css''))))
       (ex_request ''/missing.css'')))) = Some 500"
  by code_simp

text \<open>
  Claim C6. If the origin cannot be reached (the transport fails) on a cache miss, the
  client receives status 500 and the cache is left as it was: no file is created.
  The miss is that the cache file of the request's key can be opened but does not exist.
\<close>

theorem C6_origin_unreachable:
  assumes "serve pf fs dv fsys req = (w1, rw1, req1)"
    and "\<not> open_fails pf (Dir_fullName (root fs) (Path (URL req1)))"
    and "fsys (Dir_fullName (root fs) (Path (URL req1))) = None"
    and "client fs (urlOut fs (Path (URL req1))) = None"
  shows "status rw1 = Some 500 \<and> files w1 = fsys \<and> (\<forall>n. FileCreate n \<notin> set (trace w1))"
proof -
  from assms(1) obtain v w0 rw0 where
    run: "ServeHTTP pf fs (w0, rw0, req1) = (w1, rw1, req1)"
    and path: "Path (URL req1) = newPath v (if path_Ext (Path (URL req)) = [] then ''/index.html'' else Path (URL req))"
    and st: "files w0 = fsys" "status rw0 = None"
      "trace w0 = [] \<or> trace w0 = [DefaultVersionCall]"
    by (rule serve_reaches)
  have name: "path_Clean (Path (URL req1)) = Path (URL req1)"
    by (simp add: path path_Clean_newPath)
  have "ServeHTTP pf fs (w0, rw0, req1) =
     (w0\<lparr>trace := trace w0 @ [FileOpen (Dir_fullName (root fs) (path_Clean (Path (URL req1)))),
                             OriginGet (urlOut fs (path_Clean (Path (URL req1)))),
                             LogError ErrTransport]\<rparr>,
      rw0\<lparr>header := Header_Set (header rw0) ''X-Cache'' (Text ''miss''), status := Some 500\<rparr>, req1)"
    using assms(2-4) st by (intro ServeHTTP_transport) (simp_all add: name)
  then show ?thesis
    using run st by auto
qed

theorem C6_witness:
  "\<not> open_fails ex_platform (Dir_fullName (root ex_fileServer_down) ''/v1/index.html'')
   \<and> ex_empty (Dir_fullName (root ex_fileServer_down) ''/v1/index.html'') = None
   \<and> client ex_fileServer_down (urlOut ex_fileServer_down ''/v1/index.html'') = None
   \<and> status (fst (snd (serve ex_platform ex_fileServer_down (defaultVersionFunc ''v1'') ex_empty
         (ex_request ''/about'')))) = Some 500
   \<and> files (fst (serve ex_platform ex_fileServer_down (defaultVersionFunc ''v1'') ex_empty
         (ex_request ''/about''))) = ex_empty"
proof -
  let ?x = "serve ex_platform ex_fileServer_down (defaultVersionFunc ''v1'') ex_empty (ex_request ''/about'')"
  have p: "Path (URL (snd (snd ?x))) = ''/v1/index.html''"
    by code_simp
  have h1: "?x = (fst ?x, fst (snd ?x), snd (snd ?x))"
    by simp
  have h2: "\<not> open_fails ex_platform (Dir_fullName (root ex_fileServer_down) ''/v1/index.html'')"
    by code_simp
  have h3: "ex_empty (Dir_fullName (root ex_fileServer_down) ''/v1/index.html'') = None"
    by code_simp
  have h4: "client ex_fileServer_down (urlOut ex_fileServer_down ''/v1/index.html'') = None"
    by code_simp
  show ?thesis
    using C6_origin_unreachable [OF h1] h2 h3 h4 by (simp only: p) simp
qed

text \<open>
  Claim C7. One request makes at most one fetch from the origin and at most two lookups
  of the cache file (and creates at most one file). When the first lookup finds the file
  or cannot open it, there is no fetch and no file changes. On a miss the calls are, in
  order: the lookup, the fetch, the creation of the file, the second lookup. When the
  fetch fails or the file cannot be created, the calls stop there, no file changes and
  the response is status 500; when the write reports an error, the calls stop there, the
  file holds what was written and the response is status 500. Otherwise the response of
  the origin is written to the file, once, and the file is looked up a second time; when
  that lookup does not find or cannot parse the file, the response is status 500 as well
  (an error of the copy to the client comes after the status line and is only logged).
  Nothing is repeated: the handler is a function without a loop, so that every request
  ends.
\<close>

theorem C7_one_fetch_two_lookups:
  assumes "serve pf fs defaultVersion fsys req = (w1, rw1, req1)"
  shows "let n = Dir_fullName (root fs) (Path (URL req1));
             u = urlOut fs (Path (URL req1));
             f = fullName fs (Path (URL req1));
             calls = removeAll DefaultVersionCall (trace w1);
             miss = (\<not> open_fails pf n \<and> fsys n = None)
         in length (filter is_OriginGet (trace w1)) \<le> 1
          \<and> length (filter is_FileOpen (trace w1)) \<le> 2
          \<and> length (filter is_FileCreate (trace w1)) \<le> 1
          \<and> (\<not> miss \<longrightarrow>
                files w1 = fsys
                \<and> (calls = [FileOpen n] \<or> (\<exists>e. calls = [FileOpen n, LogError e])))
          \<and> (miss \<and> client fs u = None \<longrightarrow>
                calls = [FileOpen n, OriginGet u, LogError ErrTransport] \<and> status rw1 = Some 500
                \<and> files w1 = fsys)
          \<and> (\<forall>res. miss \<and> client fs u = Some res \<and> create_fails pf f \<longrightarrow>
                calls = [FileOpen n, OriginGet u, FileCreate f, LogError ErrCreate] \<and> status rw1 = Some 500
                \<and> files w1 = fsys)
          \<and> (\<forall>res. miss \<and> client fs u = Some res \<and> \<not> create_fails pf f \<and> snd (Response_Write pf res) \<longrightarrow>
                calls = [FileOpen n, OriginGet u, FileCreate f, LogError ErrWrite] \<and> status rw1 = Some 500
                \<and> files w1 = fsys(f \<mapsto> fst (Response_Write pf res)))
          \<and> (\<forall>res. miss \<and> client fs u = Some res \<and> \<not> create_fails pf f \<and> \<not> snd (Response_Write pf res) \<longrightarrow>
                take 4 calls = [FileOpen n, OriginGet u, FileCreate f, FileOpen n]
                \<and> length (filter is_OriginGet calls) = 1
                \<and> length (filter is_FileOpen calls) = 2
                \<and> length (filter is_FileCreate calls) = 1
                \<and> files w1 = fsys(f \<mapsto> fst (Response_Write pf res))
                \<and> ((case (fsys(f \<mapsto> fst (Response_Write pf res))) n of
                       None \<Rightarrow> True
                     | Some b \<Rightarrow> http_ReadResponse pf b = None) \<longrightarrow> status rw1 = Some 500))"
proof -
  from assms obtain v w0 rw0 where
    run: "ServeHTTP pf fs (w0, rw0, req1) = (w1, rw1, req1)"
    and path: "Path (URL req1) = newPath v (if path_Ext (Path (URL req)) = [] then ''/index.html'' else Path (URL req))"
    and st: "files w0 = fsys" "status rw0 = None"
    and tr: "trace w0 = [] \<or> trace w0 = [DefaultVersionCall]"
    by (rule serve_reaches)
  have name: "path_Clean (Path (URL req1)) = Path (URL req1)"
    by (simp add: path path_Clean_newPath)
  let ?n = "Dir_fullName (root fs) (Path (URL req1))"
  let ?u = "urlOut fs (Path (URL req1))"
  let ?f = "fullName fs (Path (URL req1))"
  let ?calls = "removeAll DefaultVersionCall (trace w1)"
  let ?miss = "\<not> open_fails pf ?n \<and> fsys ?n = None"
  have pre: "removeAll DefaultVersionCall (trace w0) = []"
    "filter is_OriginGet (trace w0) = []" "filter is_FileOpen (trace w0) = []"
    "filter is_FileCreate (trace w0) = []"
    using tr by auto
  note counts = ServeHTTP_counts [OF run, unfolded pre]
  have c1: "length (filter is_OriginGet (trace w1)) \<le> 1"
    and c2: "length (filter is_FileOpen (trace w1)) \<le> 2"
    and c3: "length (filter is_FileCreate (trace w1)) \<le> 1"
    using counts by simp_all
  have found: "files w1 = fsys \<and> (?calls = [FileOpen ?n] \<or> (\<exists>e. ?calls = [FileOpen ?n, LogError e]))"
    if "\<not> ?miss"
  proof -
    have "open_fails pf ?n \<or> fsys ?n \<noteq> None"
      using that by simp
    from ServeHTTP_no_miss [OF run, unfolded name st(1), OF this st(2)]
    show ?thesis using st(1) pre by auto
  qed
  have transport: "?calls = [FileOpen ?n, OriginGet ?u, LogError ErrTransport] \<and> status rw1 = Some 500
      \<and> files w1 = fsys"
    if "?miss" "client fs ?u = None"
  proof -
    have "ServeHTTP pf fs (w0, rw0, req1) =
       (w0\<lparr>trace := trace w0 @ [FileOpen ?n, OriginGet ?u, LogError ErrTransport]\<rparr>,
        rw0\<lparr>header := Header_Set (header rw0) ''X-Cache'' (Text ''miss''), status := Some 500\<rparr>, req1)"
      using ServeHTTP_transport [of pf fs req1 w0 rw0] that st by (simp add: name)
    then show ?thesis using run pre st(1) by auto
  qed
  have create: "?calls = [FileOpen ?n, OriginGet ?u, FileCreate ?f, LogError ErrCreate] \<and> status rw1 = Some 500
      \<and> files w1 = fsys"
    if "?miss" "client fs ?u = Some res" "create_fails pf ?f" for res
  proof -
    have "ServeHTTP pf fs (w0, rw0, req1) =
       (w0\<lparr>trace := trace w0 @ [FileOpen ?n, OriginGet ?u, FileCreate ?f, LogError ErrCreate]\<rparr>,
        rw0\<lparr>header := Header_Set (header rw0) ''X-Cache'' (Text ''miss''), status := Some 500\<rparr>, req1)"
      using ServeHTTP_create [of pf fs req1 w0 res rw0] that st by (simp add: name)
    then show ?thesis using run pre st(1) by auto
  qed
  have wfail: "?calls = [FileOpen ?n, OriginGet ?u, FileCreate ?f, LogError ErrWrite] \<and> status rw1 = Some 500
      \<and> files w1 = fsys(?f \<mapsto> fst (Response_Write pf res))"
    if "?miss" "client fs ?u = Some res" "\<not> create_fails pf ?f" "snd (Response_Write pf res)" for res
  proof -
    have "ServeHTTP pf fs (w0, rw0, req1) =
       (w0\<lparr>trace := trace w0 @ [FileOpen ?n, OriginGet ?u, FileCreate ?f, LogError ErrWrite],
           files := (files w0)(?f \<mapsto> fst (Response_Write pf res))\<rparr>,
        rw0\<lparr>header := Header_Set (header rw0) ''X-Cache'' (Text ''miss''), status := Some 500\<rparr>, req1)"
      using ServeHTTP_write [of pf fs req1 w0 res rw0] that st by (simp add: name)
    then show ?thesis using run pre st(1) by auto
  qed
  have stored: "take 4 ?calls = [FileOpen ?n, OriginGet ?u, FileCreate ?f, FileOpen ?n]
                \<and> length (filter is_OriginGet ?calls) = 1
                \<and> length (filter is_FileOpen ?calls) = 2
                \<and> length (filter is_FileCreate ?calls) = 1
                \<and> files w1 = fsys(?f \<mapsto> fst (Response_Write pf res))
                \<and> ((case (fsys(?f \<mapsto> fst (Response_Write pf res))) ?n of
                       None \<Rightarrow> True
                     | Some b \<Rightarrow> http_ReadResponse pf b = None) \<longrightarrow> status rw1 = Some 500)"
    if "?miss" "client fs ?u = Some res" "\<not> create_fails pf ?f" "\<not> snd (Response_Write pf res)" for res
  proof -
    note eq = ServeHTTP_stored [of pf fs req1 w0 res rw0, unfolded name st(1), OF _ _ that(2,3,4) st(2)]
    show ?thesis
      using that(1) run pre
      by (auto simp: eq Let_def split: option.splits if_splits)
  qed
  show ?thesis
    unfolding Let_def using c1 c2 c3 found transport create wfail stored by blast
qed

theorem C7_witness:
  "take 4 (removeAll DefaultVersionCall (trace (fst (serve ex_platform ex_fileServer
      (defaultVersionFunc ''v1'') ex_empty (ex_request ''/about'')))))
     = [FileOpen (Dir_fullName (root ex_fileServer) ''/v1/index.html''),
        OriginGet (urlOut ex_fileServer ''/v1/index.html''),
        FileCreate (fullName ex_fileServer ''/v1/index.html''),
        FileOpen (Dir_fullName (root ex_fileServer) ''/v1/index.html'')]
   \<and> files (fst (serve ex_platform ex_fileServer
      (defaultVersionFunc ''v1'') ex_empty (ex_request ''/about''))) ''/data/cache/v1/index.html''
     = Some ''404 not found''
   \<and> removeAll DefaultVersionCall (trace (fst (serve ex_platform ex_fileServer_down
      (defaultVersionFunc ''v1'') ex_empty (ex_request ''/about''))))
     = [FileOpen (Dir_fullName (root ex_fileServer_down) ''/v1/index.html''),
        OriginGet (urlOut ex_fileServer_down ''/v1/index.html''),
        LogError ErrTransport]
   \<and> status (fst (snd (serve ex_platform ex_fileServer_down
      (defaultVersionFunc ''v1'') ex_empty (ex_request ''/about'')))) = Some 500
   \<and> files (fst (serve ex_platform ex_fileServer_down
      (defaultVersionFunc ''v1'') ex_empty (ex_request ''/about''))) = ex_empty
   \<and> status (fst (snd (serve ex_platform_readonly ex_fileServer
      (defaultVersionFunc ''v1'') ex_empty (ex_request ''/about'')))) = Some 500
   \<and> status (fst (snd (serve ex_platform_full ex_fileServer
      (defaultVersionFunc ''v1'') ex_empty (ex_request ''/about'')))) = Some 500
   \<and> status (fst (snd (serve ex_platform ex_fileServer_noroot
      (defaultVersionFunc ''v1'') ex_empty (ex_request ''/about'')))) = Some 500
   \<and> removeAll DefaultVersionCall (trace (fst (serve ex_platform ex_fileServer
      (defaultVersionFunc ''v1'') ex_broken (ex_request ''/about''))))
     = [FileOpen (Dir_fullName (root ex_fileServer) ''/v1/index.html''), LogError ErrMalformed]
   \<and> files (fst (serve ex_platform ex_fileServer
      (defaultVersionFunc ''v1'') ex_broken (ex_request ''/about''))) = ex_broken"
proof -
  let ?a = "serve ex_platform ex_fileServer (defaultVersionFunc ''v1'') ex_empty (ex_request ''/about'')"
  let ?b = "serve ex_platform ex_fileServer_down (defaultVersionFunc ''v1'') ex_empty (ex_request ''/about'')"
  let ?c = "serve ex_platform_readonly ex_fileServer (defaultVersionFunc ''v1'') ex_empty (ex_request ''/about'')"
  let ?d = "serve ex_platform ex_fileServer_noroot (defaultVersionFunc ''v1'') ex_empty (ex_request ''/about'')"
  let ?e = "serve ex_platform_full ex_fileServer (defaultVersionFunc ''v1'') ex_empty (ex_request ''/about'')"
  let ?g = "serve ex_platform ex_fileServer (defaultVersionFunc ''v1'') ex_broken (ex_request ''/about'')"
  have pa: "Path (URL (snd (snd ?a))) = ''/v1/index.html''"
    and pb: "Path (URL (snd (snd ?b))) = ''/v1/index.html''"
    and pc: "Path (URL (snd (snd ?c))) = ''/v1/index.html''"
    and pd: "Path (URL (snd (snd ?d))) = ''/v1/index.html''"
    and pe: "Path (URL (snd (snd ?e))) = ''/v1/index.html''"
    and pg: "Path (URL (snd (snd ?g))) = ''/v1/index.html''"
    by code_simp+
  have ha: "?a = (fst ?a, fst (snd ?a), snd (snd ?a))"
    and hb: "?b = (fst ?b, fst (snd ?b), snd (snd ?b))"
    and hc: "?c = (fst ?c, fst (snd ?c), snd (snd ?c))"
    and hd: "?d = (fst ?d, fst (snd ?d), snd (snd ?d))"
    and he: "?e = (fst ?e, fst (snd ?e), snd (snd ?e))"
    and hg: "?g = (fst ?g, fst (snd ?g), snd (snd ?g))"
    by simp_all
  have miss: "\<not> open_fails ex_platform (Dir_fullName (root ex_fileServer) ''/v1/index.html'')"
    "ex_empty (Dir_fullName (root ex_fileServer) ''/v1/index.html'') = None"
    "\<not> open_fails ex_platform (Dir_fullName (root ex_fileServer_down) ''/v1/index.html'')"
    "ex_empty (Dir_fullName (root ex_fileServer_down) ''/v1/index.html'') = None"
    "\<not> open_fails ex_platform_readonly (Dir_fullName (root ex_fileServer) ''/v1/index.html'')"
    "\<not> open_fails ex_platform_full (Dir_fullName (root ex_fileServer) ''/v1/index.html'')"
    "\<not> open_fails ex_platform (Dir_fullName (root ex_fileServer_noroot) ''/v1/index.html'')"
    "ex_empty (Dir_fullName (root ex_fileServer_noroot) ''/v1/index.html'') = None"
    by code_simp+
  have hit: "ex_broken (Dir_fullName (root ex_fileServer) ''/v1/index.html'') = Some ''garbage''"
    by code_simp
  have fetch: "client ex_fileServer (urlOut ex_fileServer ''/v1/index.html'') = Some ex_notfound"
    "client ex_fileServer_down (urlOut ex_fileServer_down ''/v1/index.html'') = None"
    "client ex_fileServer_noroot (urlOut ex_fileServer_noroot ''/v1/index.html'') = Some ex_notfound"
    by (simp_all add: ex_fileServer_def ex_fileServer_down_def ex_fileServer_noroot_def)
  have store: "\<not> create_fails ex_platform (fullName ex_fileServer ''/v1/index.html'')"
    "\<not> snd (Response_Write ex_platform ex_notfound)"
    "create_fails ex_platform_readonly (fullName ex_fileServer ''/v1/index.html'')"
    "\<not> create_fails ex_platform (fullName ex_fileServer_noroot ''/v1/index.html'')"
    "\<not> create_fails ex_platform_full (fullName ex_fileServer ''/v1/index.html'')"
    "snd (Response_Write ex_platform_full ex_notfound)"
    by code_simp+
  have lookup: "(case (ex_empty(fullName ex_fileServer_noroot ''/v1/index.html'' \<mapsto>
        fst (Response_Write ex_platform ex_notfound)))
          (Dir_fullName (root ex_fileServer_noroot) ''/v1/index.html'') of
        None \<Rightarrow> True | Some b \<Rightarrow> http_ReadResponse ex_platform b = None)"
    by code_simp
  have content: "(ex_empty(fullName ex_fileServer ''/v1/index.html'' \<mapsto> fst (Response_Write ex_platform ex_notfound)))
      ''/data/cache/v1/index.html'' = Some ''404 not found''"
    by code_simp
  have "take 4 (removeAll DefaultVersionCall (trace (fst ?a)))
     = [FileOpen (Dir_fullName (root ex_fileServer) ''/v1/index.html''),
        OriginGet (urlOut ex_fileServer ''/v1/index.html''),
        FileCreate (fullName ex_fileServer ''/v1/index.html''),
        FileOpen (Dir_fullName (root ex_fileServer) ''/v1/index.html'')]
     \<and> files (fst ?a) = ex_empty(fullName ex_fileServer ''/v1/index.html'' \<mapsto>
          fst (Response_Write ex_platform ex_notfound))"
    using C7_one_fetch_two_lookups [OF ha, unfolded Let_def pa] miss fetch store by blast
  then have a: "take 4 (removeAll DefaultVersionCall (trace (fst ?a)))
     = [FileOpen (Dir_fullName (root ex_fileServer) ''/v1/index.html''),
        OriginGet (urlOut ex_fileServer ''/v1/index.html''),
        FileCreate (fullName ex_fileServer ''/v1/index.html''),
        FileOpen (Dir_fullName (root ex_fileServer) ''/v1/index.html'')]
     \<and> files (fst ?a) ''/data/cache/v1/index.html'' = Some ''404 not found''"
    using content by simp
  have b: "removeAll DefaultVersionCall (trace (fst ?b))
     = [FileOpen (Dir_fullName (root ex_fileServer_down) ''/v1/index.html''),
        OriginGet (urlOut ex_fileServer_down ''/v1/index.html''),
        LogError ErrTransport] \<and> status (fst (snd ?b)) = Some 500 \<and> files (fst ?b) = ex_empty"
    using C7_one_fetch_two_lookups [OF hb, unfolded Let_def pb] miss fetch by blast
  have c: "status (fst (snd ?c)) = Some 500"
    using C7_one_fetch_two_lookups [OF hc, unfolded Let_def pc] miss fetch store by blast
  have e: "status (fst (snd ?e)) = Some 500"
    using C7_one_fetch_two_lookups [OF he, unfolded Let_def pe] miss fetch store by blast
  have d: "status (fst (snd ?d)) = Some 500"
    using C7_one_fetch_two_lookups [OF hd, unfolded Let_def pd] miss fetch store lookup by blast
  have "files (fst ?g) = ex_broken
      \<and> (removeAll DefaultVersionCall (trace (fst ?g))
            = [FileOpen (Dir_fullName (root ex_fileServer) ''/v1/index.html'')]
         \<or> (\<exists>e. removeAll DefaultVersionCall (trace (fst ?g))
            = [FileOpen (Dir_fullName (root ex_fileServer) ''/v1/index.html''), LogError e]))"
    using C7_one_fetch_two_lookups [OF hg, unfolded Let_def pg] hit by simp
  moreover have "removeAll DefaultVersionCall (trace (fst ?g))
      = [FileOpen (Dir_fullName (root ex_fileServer) ''/v1/index.html''), LogError ErrMalformed]"
    by code_simp
  ultimately have g: "removeAll DefaultVersionCall (trace (fst ?g))
      = [FileOpen (Dir_fullName (root ex_fileServer) ''/v1/index.html''), LogError ErrMalformed]
      \<and> files (fst ?g) = ex_broken"
    by blast
  show ?thesis
    using a b c e d g by blast
qed

text \<open>
  Claim C8, at an input where the code departs from it. A request for
  \<^verbatim>\<open>/static/app.js\<close> that carries the cookie \<^verbatim>\<open>version-override=v2\<close> and no query is
  answered with a \<^verbatim>\<open>Set-Cookie\<close> line whose cookie has an empty path: the cookie that
  \<^verbatim>\<open>VersionSwitch\<close> refreshes is the one read from the request, which has a name and a
  value only, and the line carries no \<^verbatim>\<open>Path\<close> attribute. The branch of the query
  parameter does set the path \<^verbatim>\<open>/\<close> (\<open>VersionSwitch_version_query\<close>); the other parts of
  the claim hold in all three branches (\<open>VersionSwitch_version_cookie\<close>,
  \<open>VersionSwitch_version_default\<close>).
\<close>

theorem C8_cookie_refresh_without_path:
  "header (fst (snd (serve ex_platform ex_fileServer (defaultVersionFunc ''v1'') ex_empty
      (ex_request_cookie ''/static/app.js'' ''v2'')))) ''Set-Cookie''
   = [SetCookieLine \<lparr>Name = ''version-override'', Value = ''v2'', CookiePath = [],
        Expires = Some (1000 + time_Hour), HttpOnly = False\<rparr>]"
  by code_simp

text \<open>
  Claim C9. When the cache file of a request exists but does not parse as a response, the
  client receives status 500, the file is left in place (the cache is unchanged, nothing
  is created), the origin is not contacted, and the response carries
  \<^verbatim>\<open>X-Cache: hit\<close>, the marker having been set before the lookup.
\<close>

theorem C9_malformed_cache_file:
  assumes "serve pf fs dv fsys req = (w1, rw1, req1)"
    and "\<not> open_fails pf (Dir_fullName (root fs) (Path (URL req1)))"
    and "fsys (Dir_fullName (root fs) (Path (URL req1))) = Some bytes"
    and "http_ReadResponse pf bytes = None"
  shows "status rw1 = Some 500 \<and> files w1 = fsys
         \<and> (\<forall>u. OriginGet u \<notin> set (trace w1)) \<and> (\<forall>n. FileCreate n \<notin> set (trace w1))
         \<and> header rw1 ''X-Cache'' = [Text ''hit'']"
proof -
  from assms(1) obtain v w0 rw0 where
    run: "ServeHTTP pf fs (w0, rw0, req1) = (w1, rw1, req1)"
    and path: "Path (URL req1) = newPath v (if path_Ext (Path (URL req)) = [] then ''/index.html'' else Path (URL req))"
    and st: "files w0 = fsys" "status rw0 = None" "header rw0 ''X-Cache'' = []"
      "trace w0 = [] \<or> trace w0 = [DefaultVersionCall]"
    by (rule serve_reaches)
  have name: "path_Clean (Path (URL req1)) = Path (URL req1)"
    by (simp add: path path_Clean_newPath)
  have "ServeHTTP pf fs (w0, rw0, req1) =
     (w0\<lparr>trace := trace w0 @ [FileOpen (Dir_fullName (root fs) (path_Clean (Path (URL req1)))),
                             LogError ErrMalformed]\<rparr>,
      rw0\<lparr>header := Header_Set (header rw0) ''X-Cache'' (Text ''hit''), status := Some 500\<rparr>, req1)"
    using assms(2-4) st by (intro ServeHTTP_malformed) (simp_all add: name)
  then show ?thesis
    using run st by (auto simp: Header_Set_def)
qed

theorem C9_witness:
  "\<not> open_fails ex_platform (Dir_fullName (root ex_fileServer) ''/v1/index.html'')
   \<and> ex_broken (Dir_fullName (root ex_fileServer) ''/v1/index.html'') = Some ''garbage''
   \<and> http_ReadResponse ex_platform ''garbage'' = None
   \<and> status (fst (snd (serve ex_platform ex_fileServer (defaultVersionFunc ''v1'') ex_broken
         (ex_request ''/about'')))) = Some 500
   \<and> header (fst (snd (serve ex_platform ex_fileServer (defaultVersionFunc ''v1'') ex_broken
         (ex_request ''/about'')))) ''X-Cache'' = [Text ''hit'']"
proof -
  let ?x = "serve ex_platform ex_fileServer (defaultVersionFunc ''v1'') ex_broken (ex_request ''/about'')"
  have p: "Path (URL (snd (snd ?x))) = ''/v1/index.html''"
    by code_simp
  have h1: "?x = (fst ?x, fst (snd ?x), snd (snd ?x))"
    by simp
  have h2: "\<not> open_fails ex_platform (Dir_fullName (root ex_fileServer) ''/v1/index.html'')"
    by code_simp
  have h3: "ex_broken (Dir_fullName (root ex_fileServer) ''/v1/index.html'') = Some ''garbage''"
    by code_simp
  have h4: "http_ReadResponse ex_platform ''garbage'' = None"
    by code_simp
  show ?thesis
    using C9_malformed_cache_file [OF h1, of "''garbage''"] h2 h3 h4 by (simp only: p) simp
qed

text \<open>
  Claim C10. When the request has no \<^verbatim>\<open>version\<close> query parameter and its
  \<^verbatim>\<open>version-override\<close> cookie has the empty value, \<^verbatim>\<open>VersionSwitch\<close> resolves the empty
  version without calling the default accessor (the world is unchanged), sets
  \<^verbatim>\<open>Cache-Control: no-store\<close>, and hands the request on to the next handler with the path
  \<^verbatim>\<open>clean("/" + path)\<close>, where \<open>path\<close> is the path with which the request reached
  \<^verbatim>\<open>VersionSwitch\<close>: no version element is added.
\<close>

theorem C10_empty_cookie:
  assumes "map_of (RawQuery (URL req)) ''version'' = None"
    and "map_of (Cookies req) ''version-override'' = Some []"
  shows "fst (VersionSwitch_version pf defaultVersion (w, rw, req)) = []
    \<and> fst (snd (VersionSwitch_version pf defaultVersion (w, rw, req))) = w
    \<and> Header_Get (header (snd (snd (VersionSwitch_version pf defaultVersion (w, rw, req))))) ''Cache-Control''
        = Text ''no-store''
    \<and> VersionSwitch pf defaultVersion next (w, rw, req) =
        next (w, snd (snd (VersionSwitch_version pf defaultVersion (w, rw, req))),
              req\<lparr>URL := (URL req)\<lparr>Path := path_Clean (''/'' @ Path (URL req))\<rparr>\<rparr>)"
proof -
  have v: "VersionSwitch_version pf defaultVersion (w, rw, req) =
      ([], w, (http_SetCookie rw \<lparr>Name = ''version-override'', Value = [], CookiePath = [],
                 Expires = Some (time_Now pf + time_Hour), HttpOnly = False\<rparr>)
               \<lparr>header := Header_Set (header (http_SetCookie rw \<lparr>Name = ''version-override'', Value = [], CookiePath = [],
                 Expires = Some (time_Now pf + time_Hour), HttpOnly = False\<rparr>)) ''Cache-Control'' (Text ''no-store'')\<rparr>)"
    using assms
    by (simp add: VersionSwitch_version_def VERSION_COOKIE_NAME_def Values_Get_map_of
        Request_Cookie_map_of Let_def)
  show ?thesis
    by (simp add: v VersionSwitch_def newPath_empty_version Header_Get_def Header_Set_def)
qed

theorem C10_witness:
  "map_of (RawQuery (URL (ex_request_cookie ''/static/app.js'' []))) ''version'' = None
   \<and> map_of (Cookies (ex_request_cookie ''/static/app.js'' [])) ''version-override'' = Some []
   \<and> fst (VersionSwitch_version ex_platform (defaultVersionFunc ''v1'')
        (ex_world, newWriter, ex_request_cookie ''/static/app.js'' [])) = []
   \<and> Header_Get (header (snd (snd (VersionSwitch_version ex_platform (defaultVersionFunc ''v1'')
        (ex_world, newWriter, ex_request_cookie ''/static/app.js'' []))))) ''Cache-Control'' = Text ''no-store''"
proof -
  have h1: "map_of (RawQuery (URL (ex_request_cookie ''/static/app.js'' []))) ''version'' = None"
    by (simp add: ex_request_cookie_def)
  have h2: "map_of (Cookies (ex_request_cookie ''/static/app.js'' [])) ''version-override'' = Some []"
    by (simp add: ex_request_cookie_def)
  show ?thesis
    using C10_empty_cookie [OF h1 h2, of ex_platform "defaultVersionFunc ''v1''" ex_world newWriter] h1 h2
    by simp
qed


end
